theory Spec2Isabelle
  imports Complex_Main
begin

section \<open>Tensors of the numeric library\<close>

text \<open>
  The losses of \<^verbatim>\<open>ToothSwinUNETR/losses/loss.py\<close> work on tensors of the
  numeric library. A tensor is its shape, its element type, the device it lives on and
  its elements in row-major order. An element is the number it denotes. Where the
  library changes the element type (\<open>convert\<close> below), the number is kept when the
  new type is a floating one (the rounding of a value that the new type cannot hold is
  not part of this model; 0 and 1, the values this file builds, are held by every type),
  and it is cut towards zero and wrapped to the width when the new type is an integer one.
\<close>

datatype dtype = torch_bool | torch_uint8 | torch_int32 | torch_int64
  | torch_float16 | torch_float32 | torch_float64

datatype device = cpu | cuda nat

record tensor =
  shape :: "nat list"
  dtype :: dtype
  device :: device
  elems :: "real list"

datatype error =
    FileNotFoundError string
  | IndexError string
  | RuntimeError string
  | ValueError string
  | OptionLookupError string

text \<open>The invariant of every tensor of the library: as many elements as the shape says.\<close>

definition wf_tensor :: "tensor \<Rightarrow> bool" where
  "wf_tensor t = (length (elems t) = prod_list (shape t))"

definition is_floating_point :: "tensor \<Rightarrow> bool" where
  "is_floating_point t = (dtype t \<in> {torch_float16, torch_float32, torch_float64})"

text \<open>Type promotion of the library, on the element types above (a linear order).\<close>

fun dtype_rank :: "dtype \<Rightarrow> nat" where
  "dtype_rank torch_bool = 0"
| "dtype_rank torch_uint8 = 1"
| "dtype_rank torch_int32 = 2"
| "dtype_rank torch_int64 = 3"
| "dtype_rank torch_float16 = 4"
| "dtype_rank torch_float32 = 5"
| "dtype_rank torch_float64 = 6"

definition promote_types :: "dtype \<Rightarrow> dtype \<Rightarrow> dtype" where
  "promote_types a b = (if dtype_rank a \<le> dtype_rank b then b else a)"

text \<open>\<^verbatim>\<open>torch.ones(shape, dtype=..., device=...)\<close>.\<close>

definition ones :: "nat list \<Rightarrow> dtype \<Rightarrow> device \<Rightarrow> tensor" where
  "ones sh dt dev = \<lparr>shape = sh, dtype = dt, device = dev, elems = replicate (prod_list sh) 1\<rparr>"

text \<open>\<^verbatim>\<open>t.to(device)\<close>: the same tensor on another device.\<close>

definition to_device :: "tensor \<Rightarrow> device \<Rightarrow> tensor" where
  "to_device t dev = t\<lparr>device := dev\<rparr>"

text \<open>
  \<^verbatim>\<open>torch.cat([a, b], dim=d)\<close>: both tensors have the same rank, the same sizes
  outside the dimension \<open>d\<close> and the same device, or the library raises. The
  result takes, for every index before \<open>d\<close>, the block of \<open>a\<close> and then the
  block of \<open>b\<close>.
\<close>

definition cat :: "tensor \<Rightarrow> tensor \<Rightarrow> nat \<Rightarrow> error + tensor" where
  "cat a b d =
     (if length (shape a) \<noteq> length (shape b) then
        Inl (RuntimeError ''Tensors must have same number of dimensions'')
      else if length (shape a) \<le> d then
        Inl (IndexError ''Dimension out of range'')
      else if (shape a)[d := 0] \<noteq> (shape b)[d := 0] then
        Inl (RuntimeError ''Sizes of tensors must match except in the cat dimension'')
      else if device a \<noteq> device b then
        Inl (RuntimeError ''Expected all tensors to be on the same device'')
      else
        let ca = prod_list (drop d (shape a));
            cb = prod_list (drop d (shape b));
            outer = prod_list (take d (shape a))
        in Inr \<lparr>shape = (shape a)[d := shape a ! d + shape b ! d],
                dtype = promote_types (dtype a) (dtype b),
                device = device a,
                elems = concat (map (\<lambda>k. take ca (drop (k * ca) (elems a))
                                          @ take cb (drop (k * cb) (elems b)))
                                    [0..<outer])\<rparr>)"

text \<open>
  \<^verbatim>\<open>m[i][j] = v\<close> and \<^verbatim>\<open>m[i][j]\<close> on a matrix: out of range the library
  raises.
\<close>

definition setitem2 :: "tensor \<Rightarrow> nat \<Rightarrow> nat \<Rightarrow> real \<Rightarrow> error + tensor" where
  "setitem2 m i j v =
     (case shape m of
        [r, c] \<Rightarrow>
          if i < r \<and> j < c then Inr (m\<lparr>elems := (elems m)[i * c + j := v]\<rparr>)
          else Inl (IndexError ''index out of bounds'')
      | _ \<Rightarrow> Inl (IndexError ''not a matrix''))"

definition getitem2 :: "tensor \<Rightarrow> nat \<Rightarrow> nat \<Rightarrow> error + real" where
  "getitem2 m i j =
     (case shape m of
        [r, c] \<Rightarrow>
          if i < r \<and> j < c then Inr (elems m ! (i * c + j))
          else Inl (IndexError ''index out of bounds'')
      | _ \<Rightarrow> Inl (IndexError ''not a matrix''))"

section \<open>Values of the host language\<close>

text \<open>
  \<open>get_tooth_dist_matrix\<close> tests its argument \<open>quarter_penalty\<close> for truth; the
  argument is annotated as a boolean and its default is a string, so the model takes a
  value of the host language and its truth value as the language defines it.
\<close>

datatype pyval = PyNone | PyBool bool | PyInt int | PyFloat real | PyStr string

fun truthy :: "pyval \<Rightarrow> bool" where
  "truthy PyNone = False"
| "truthy (PyBool b) = b"
| "truthy (PyInt n) = (n \<noteq> 0)"
| "truthy (PyFloat x) = (x \<noteq> 0)"
| "truthy (PyStr s) = (s \<noteq> [])"

section \<open>The distance matrices\<close>

text \<open>
  The two tables are files beside the source; the model reads them from a file system,
  a map from paths to the arrays stored there. What the function loads and prints is
  returned with its result, in order.
\<close>

datatype event = Load string | Print string

type_synonym filesystem = "string \<rightharpoonup> tensor"

definition wasserstein_matrix_npy :: string where
  "wasserstein_matrix_npy = ''ToothSwinUNETR/losses/wasserstein_matrix.npy''"

definition wasserstein_matrix_equal_npy :: string where
  "wasserstein_matrix_equal_npy = ''ToothSwinUNETR/losses/wasserstein_matrix_equal.npy''"

text \<open>\<^verbatim>\<open>torch.from_numpy(np.load(path)).to(device)\<close>.\<close>

definition np_load :: "filesystem \<Rightarrow> string \<Rightarrow> device \<Rightarrow> error + tensor" where
  "np_load fs path dev =
     (case fs path of
        None \<Rightarrow> Inl (FileNotFoundError path)
      | Some a \<Rightarrow> Inr (to_device a dev))"

text \<open>
  \<open>get_tooth_dist_matrix\<close>: the branch loads one of the two tables (or raises, the
  file missing) and prints; the lines after it put the row and the column of the
  background class before the table and clear the cell \<open>[0][0]\<close>.
\<close>

definition get_tooth_dist_matrix ::
  "filesystem \<Rightarrow> device \<Rightarrow> pyval \<Rightarrow> event list \<times> (error + tensor)" where
  "get_tooth_dist_matrix fs dev quarter_penalty =
     (let (events, loaded) =
        (if truthy quarter_penalty then
           (case np_load fs wasserstein_matrix_npy dev of
              Inl e \<Rightarrow> ([Load wasserstein_matrix_npy], Inl e)
            | Inr dist_matrix \<Rightarrow>
                ([Load wasserstein_matrix_npy, Print ''Using intra quarters penalty''],
                 Inr dist_matrix))
         else
           (case np_load fs wasserstein_matrix_equal_npy dev of
              Inl e \<Rightarrow> ([Load wasserstein_matrix_equal_npy], Inl e)
            | Inr dist_matrix \<Rightarrow>
                ([Load wasserstein_matrix_equal_npy,
                  Print ''Using equal quarters - no intra quarter penalty''],
                 Inr dist_matrix)))
      in (events,
          case loaded of
            Inl e \<Rightarrow> Inl e
          | Inr dist_matrix \<Rightarrow>
              (case cat (to_device (ones [1, 32] torch_float32 cpu) dev) dist_matrix 0 of
                 Inl e \<Rightarrow> Inl e
               | Inr dist_matrix \<Rightarrow>
                   (case cat (to_device (ones [33, 1] torch_float32 cpu) dev) dist_matrix 1 of
                      Inl e \<Rightarrow> Inl e
                    | Inr dist_matrix \<Rightarrow> setitem2 dist_matrix 0 0 0))))"

text \<open>The default of \<open>quarter_penalty\<close> is the string \<^verbatim>\<open>"True"\<close>.\<close>

definition quarter_penalty_default :: pyval where
  "quarter_penalty_default = PyStr ''True''"

definition get_equall_dist_matrix :: "device \<Rightarrow> error + tensor" where
  "get_equall_dist_matrix dev = setitem2 (ones [33, 33] torch_float64 dev) 0 0 0"

text \<open>\<^verbatim>\<open>builder(...)[i][j]\<close>: the read of an entry of what a builder returned.\<close>

definition getitem2_of :: "error + tensor \<Rightarrow> nat \<Rightarrow> nat \<Rightarrow> error + real" where
  "getitem2_of r i j = (case r of Inl e \<Rightarrow> Inl e | Inr m \<Rightarrow> getitem2 m i j)"

section \<open>Tensor operations of the cross-entropy paths\<close>

definition trunc :: "real \<Rightarrow> int" where
  "trunc x = (if 0 \<le> x then \<lfloor>x\<rfloor> else \<lceil>x\<rceil>)"

definition swrap :: "nat \<Rightarrow> int \<Rightarrow> int" where
  "swrap w n = (n + 2 ^ (w - 1)) mod 2 ^ w - 2 ^ (w - 1)"

fun convert :: "dtype \<Rightarrow> real \<Rightarrow> real" where
  "convert torch_bool x = (if x = 0 then 0 else 1)"
| "convert torch_uint8 x = of_int (trunc x mod 256)"
| "convert torch_int32 x = of_int (swrap 32 (trunc x))"
| "convert torch_int64 x = of_int (swrap 64 (trunc x))"
| "convert torch_float16 x = x"
| "convert torch_float32 x = x"
| "convert torch_float64 x = x"

text \<open>\<^verbatim>\<open>t.to(dtype=dt)\<close> and \<^verbatim>\<open>t.long()\<close>.\<close>

definition to_dtype :: "tensor \<Rightarrow> dtype \<Rightarrow> tensor" where
  "to_dtype t dt = t\<lparr>dtype := dt, elems := map (convert dt) (elems t)\<rparr>"

definition long :: "tensor \<Rightarrow> tensor" where
  "long t = to_dtype t torch_int64"

text \<open>\<^verbatim>\<open>torch.squeeze(t, dim=d)\<close>: the dimension goes when its size is 1.\<close>

definition squeeze :: "tensor \<Rightarrow> nat \<Rightarrow> error + tensor" where
  "squeeze t d =
     (if length (shape t) \<le> d then Inl (IndexError ''Dimension out of range'')
      else if shape t ! d = 1 then Inr (t\<lparr>shape := take d (shape t) @ drop (Suc d) (shape t)\<rparr>)
      else Inr t)"

text \<open>
  \<^verbatim>\<open>torch.argmax(t, dim=d)\<close>: along \<open>d\<close>, the index of the first greatest
  element; the dimension goes, the indices are 64-bit integers. The library raises when
  the dimension is empty.
\<close>

fun first_max :: "real list \<Rightarrow> nat" where
  "first_max [] = 0"
| "first_max (x # xs) = (if list_all (\<lambda>y. y \<le> x) xs then 0 else Suc (first_max xs))"

definition argmax :: "tensor \<Rightarrow> nat \<Rightarrow> error + tensor" where
  "argmax t d =
     (if length (shape t) \<le> d then Inl (IndexError ''Dimension out of range'')
      else if shape t ! d = 0 then
        Inl (IndexError ''argmax(): Expected reduction dim to have non-zero size'')
      else
        let n = shape t ! d;
            inner = prod_list (drop (Suc d) (shape t));
            outer = prod_list (take d (shape t))
        in Inr \<lparr>shape = take d (shape t) @ drop (Suc d) (shape t),
                dtype = torch_int64,
                device = device t,
                elems = concat (map (\<lambda>k. map (\<lambda>s. of_nat (first_max
                                        (map (\<lambda>c. elems t ! ((k * n + c) * inner + s)) [0..<n])))
                                      [0..<inner])
                                [0..<outer])\<rparr>)"

text \<open>\<^verbatim>\<open>str(t.shape)\<close>, as the message of \<open>DiceCELoss.forward\<close> prints it.\<close>

function str_nat :: "nat \<Rightarrow> string" where
  "str_nat n = (if n < 10 then [''0123456789'' ! n]
                else str_nat (n div 10) @ [''0123456789'' ! (n mod 10)])"
  by pat_completeness auto
termination
  by (relation "measure id") auto

fun join :: "string \<Rightarrow> string list \<Rightarrow> string" where
  "join sep [] = []"
| "join sep [x] = x"
| "join sep (x # y # ys) = x @ sep @ join sep (y # ys)"

definition str_Size :: "nat list \<Rightarrow> string" where
  "str_Size sh = ''torch.Size(['' @ join '', '' (map str_nat sh) @ ''])''"

section \<open>The two losses\<close>

text \<open>
  The Dice, Generalized Wasserstein Dice and cross-entropy computations are objects of
  the loss library; a loss object holds them as functions from prediction and target to
  a loss or to the error they raise. Every call of one of them is recorded with its
  arguments, in order, beside the result. The attributes that both classes of the source
  have (\<open>lambda_dice\<close>, \<open>lambda_ce\<close>, \<open>cross_entropy\<close>) are the common part of the
  two records.
\<close>

type_synonym loss_fn = "tensor \<Rightarrow> tensor \<Rightarrow> error + tensor"

datatype call =
    Call_cross_entropy tensor tensor
  | Call_generalized_dice tensor tensor
  | Call_dice tensor tensor

record loss_attrs =
  lambda_dice :: real
  lambda_ce :: real
  cross_entropy :: loss_fn

record GWDLCELoss = loss_attrs +
  generalized_dice :: loss_fn

record DiceCELoss = loss_attrs +
  dice :: loss_fn
  old_pt_ver :: bool

subsection \<open>GWDLCELoss\<close>

definition GWDLCELoss_ce ::
  "GWDLCELoss \<Rightarrow> tensor \<Rightarrow> tensor \<Rightarrow> (error + tensor) \<times> call list" where
  "GWDLCELoss_ce self input target =
     (if length (shape input) < 2 \<or> length (shape target) < 2 then
        (Inl (IndexError ''tuple index out of range''), [])
      else
        let n_pred_ch = shape input ! 1; n_target_ch = shape target ! 1 in
        case (if n_pred_ch \<noteq> n_target_ch \<and> n_target_ch = 1 then
                (case squeeze target 1 of Inl e \<Rightarrow> Inl e | Inr target \<Rightarrow> Inr (long target))
              else if \<not> is_floating_point target then Inr (to_dtype target (dtype input))
              else Inr target) of
          Inl e \<Rightarrow> (Inl e, [])
        | Inr target \<Rightarrow> (cross_entropy self input target, [Call_cross_entropy input target]))"

definition GWDLCELoss_gwdl ::
  "GWDLCELoss \<Rightarrow> tensor \<Rightarrow> tensor \<Rightarrow> (error + tensor) \<times> call list" where
  "GWDLCELoss_gwdl self y_pred y_true =
     (generalized_dice self y_pred y_true, [Call_generalized_dice y_pred y_true])"

definition GWDLCELoss_forward ::
  "GWDLCELoss \<Rightarrow> tensor \<Rightarrow> tensor \<Rightarrow> (error + tensor \<times> tensor) \<times> call list" where
  "GWDLCELoss_forward self y_pred y_true =
     (case GWDLCELoss_ce self y_pred y_true of
        (Inl e, calls) \<Rightarrow> (Inl e, calls)
      | (Inr ce_loss, calls) \<Rightarrow>
          (case GWDLCELoss_gwdl self y_pred y_true of
             (Inl e, calls') \<Rightarrow> (Inl e, calls @ calls')
           | (Inr gwdl_loss, calls') \<Rightarrow> (Inr (gwdl_loss, ce_loss), calls @ calls')))"

subsection \<open>DiceCELoss\<close>

definition DiceCELoss_ce ::
  "DiceCELoss \<Rightarrow> tensor \<Rightarrow> tensor \<Rightarrow> (error + tensor) \<times> call list" where
  "DiceCELoss_ce self input target =
     (if length (shape input) < 2 \<or> length (shape target) < 2 then
        (Inl (IndexError ''tuple index out of range''), [])
      else
        let n_pred_ch = shape input ! 1; n_target_ch = shape target ! 1 in
        case (if n_pred_ch \<noteq> n_target_ch \<and> n_target_ch = 1 then
                (case squeeze target 1 of Inl e \<Rightarrow> Inl e | Inr target \<Rightarrow> Inr (long target))
              else if old_pt_ver self then argmax target 1
              else if \<not> is_floating_point target then Inr (to_dtype target (dtype input))
              else Inr target) of
          Inl e \<Rightarrow> (Inl e, [])
        | Inr target \<Rightarrow> (cross_entropy self input target, [Call_cross_entropy input target]))"

definition DiceCELoss_forward ::
  "DiceCELoss \<Rightarrow> tensor \<Rightarrow> tensor \<Rightarrow> (error + tensor \<times> tensor) \<times> call list" where
  "DiceCELoss_forward self input target =
     (if length (shape input) \<noteq> length (shape target) then
        (Inl (ValueError
                (''the number of dimensions for input and target should be the same, ''
                 @ ''got shape '' @ str_Size (shape input) @ '' and ''
                 @ str_Size (shape target) @ ''.'')), [])
      else
        case dice self input target of
          Inl e \<Rightarrow> (Inl e, [Call_dice input target])
        | Inr dice_loss \<Rightarrow>
            (case DiceCELoss_ce self input target of
               (Inl e, calls) \<Rightarrow> (Inl e, Call_dice input target # calls)
             | (Inr ce_loss, calls) \<Rightarrow>
                 (Inr (dice_loss, ce_loss), Call_dice input target # calls)))"

subsection \<open>Construction of DiceCELoss\<close>

text \<open>
  Modelled from the spec: the enumeration \<^verbatim>\<open>DiceCEReduction\<close> is code of the
  loss library and not in this repository. The spec and the docstring of
  \<open>DiceCELoss.__init__\<close> give it as \<open>{mean, sum}\<close>.
\<close>

datatype DiceCEReduction = DiceCEReduction_MEAN | DiceCEReduction_SUM

fun DiceCEReduction_value :: "DiceCEReduction \<Rightarrow> string" where
  "DiceCEReduction_value DiceCEReduction_MEAN = ''mean''"
| "DiceCEReduction_value DiceCEReduction_SUM = ''sum''"

text \<open>
  Modelled from the spec: \<^verbatim>\<open>look_up_option\<close> is code of the loss library and
  not in this repository. The spec says that the reduction must be one of the
  enumeration and that an unrecognized value fails with a lookup error.
\<close>

definition look_up_option :: "string \<Rightarrow> error + DiceCEReduction" where
  "look_up_option opt_str =
     (if opt_str = ''mean'' then Inr DiceCEReduction_MEAN
      else if opt_str = ''sum'' then Inr DiceCEReduction_SUM
      else Inl (OptionLookupError opt_str))"

text \<open>
  The keyword arguments that \<open>__init__\<close> hands to the constructor of the Dice loss,
  and the constructors and the version test of the libraries, which the model takes as
  they are.
\<close>

record DiceLoss_kwargs =
  include_background :: bool
  to_onehot_y :: bool
  sigmoid :: bool
  softmax :: bool
  other_act :: "(tensor \<Rightarrow> tensor) option"
  squared_pred :: bool
  jaccard :: bool
  reduction :: string
  smooth_nr :: real
  smooth_dr :: real
  batch :: bool

record library =
  DiceLoss :: "DiceLoss_kwargs \<Rightarrow> error + loss_fn"
  CrossEntropyLoss :: "tensor option \<Rightarrow> string \<Rightarrow> error + loss_fn"
  pytorch_after :: "nat \<Rightarrow> nat \<Rightarrow> bool"

text \<open>The defaults of \<open>__init__\<close>; \<open>ce_weight\<close> defaults to \<open>None\<close>, both weights to 1.\<close>

definition DiceLoss_kwargs_default :: DiceLoss_kwargs where
  "DiceLoss_kwargs_default =
     \<lparr>include_background = True, to_onehot_y = False, sigmoid = False, softmax = False,
      other_act = None, squared_pred = False, jaccard = False, reduction = ''mean'',
      smooth_nr = 1 / 100000, smooth_dr = 1 / 100000, batch = False\<rparr>"

definition DiceCELoss_init ::
  "library \<Rightarrow> DiceLoss_kwargs \<Rightarrow> tensor option \<Rightarrow> real \<Rightarrow> real \<Rightarrow> error + DiceCELoss" where
  "DiceCELoss_init lib kwargs ce_weight lambda_dice' lambda_ce' =
     (case look_up_option (reduction kwargs) of
        Inl e \<Rightarrow> Inl e
      | Inr opt \<Rightarrow>
          (case DiceLoss lib (kwargs\<lparr>reduction := DiceCEReduction_value opt\<rparr>) of
             Inl e \<Rightarrow> Inl e
           | Inr dice' \<Rightarrow>
               (case CrossEntropyLoss lib ce_weight (DiceCEReduction_value opt) of
                  Inl e \<Rightarrow> Inl e
                | Inr cross_entropy' \<Rightarrow>
                    if lambda_dice' < 0 then
                      Inl (ValueError ''lambda_dice should be no less than 0.0.'')
                    else if lambda_ce' < 0 then
                      Inl (ValueError ''lambda_ce should be no less than 0.0.'')
                    else
                      Inr \<lparr>lambda_dice = lambda_dice', lambda_ce = lambda_ce',
                           cross_entropy = cross_entropy', dice = dice',
                           old_pt_ver = (\<not> pytorch_after lib 1 10)\<rparr>)))"

section \<open>Sample inputs\<close>

text \<open>Concrete inputs, on which the properties below are instantiated.\<close>

definition sample_table :: tensor where
  "sample_table = \<lparr>shape = [32, 32], dtype = torch_float64, device = cpu,
                    elems = map real [0..<1024]\<rparr>"

definition sample_fs :: filesystem where
  "sample_fs = [wasserstein_matrix_npy \<mapsto> sample_table,
                wasserstein_matrix_equal_npy \<mapsto> ones [32, 32] torch_float64 cpu]"

definition empty_fs :: filesystem where
  "empty_fs = Map.empty"

definition sample_dice_loss :: tensor where
  "sample_dice_loss = \<lparr>shape = [], dtype = torch_float32, device = cpu, elems = [1 / 4]\<rparr>"

definition sample_ce_loss :: tensor where
  "sample_ce_loss = \<lparr>shape = [], dtype = torch_float32, device = cpu, elems = [1 / 2]\<rparr>"

definition sample_dice_fn :: loss_fn where
  "sample_dice_fn = (\<lambda>input target. Inr sample_dice_loss)"

definition sample_ce_fn :: loss_fn where
  "sample_ce_fn = (\<lambda>input target. Inr sample_ce_loss)"

definition sample_GWDLCELoss :: GWDLCELoss where
  "sample_GWDLCELoss =
     \<lparr>lambda_dice = 2, lambda_ce = 3, cross_entropy = sample_ce_fn,
      generalized_dice = sample_dice_fn\<rparr>"

definition sample_DiceCELoss :: DiceCELoss where
  "sample_DiceCELoss =
     \<lparr>lambda_dice = 2, lambda_ce = 3, cross_entropy = sample_ce_fn,
      dice = sample_dice_fn, old_pt_ver = False\<rparr>"

definition old_DiceCELoss :: DiceCELoss where
  "old_DiceCELoss = sample_DiceCELoss\<lparr>old_pt_ver := True\<rparr>"

definition sample_input :: tensor where
  "sample_input = \<lparr>shape = [2, 3, 4, 4, 4], dtype = torch_float32, device = cpu,
                    elems = replicate 384 0\<rparr>"

definition sample_labels :: tensor where
  "sample_labels = \<lparr>shape = [2, 1, 4, 4, 4], dtype = torch_int64, device = cpu,
                     elems = replicate 128 2\<rparr>"

definition small_input :: tensor where
  "small_input = \<lparr>shape = [1, 2, 2], dtype = torch_float32, device = cpu,
                   elems = [1 / 4, 3 / 4, 3 / 4, 1 / 4]\<rparr>"

definition small_target :: tensor where
  "small_target = \<lparr>shape = [1, 2, 2], dtype = torch_float32, device = cpu,
                    elems = [0, 1, 1, 0]\<rparr>"

definition small_int_target :: tensor where
  "small_int_target = small_target\<lparr>dtype := torch_int64\<rparr>"

definition sample_library :: library where
  "sample_library =
     \<lparr>DiceLoss = (\<lambda>kwargs. Inr sample_dice_fn),
      CrossEntropyLoss = (\<lambda>weight reduction. Inr sample_ce_fn),
      pytorch_after = (\<lambda>major minor. True)\<rparr>"

section \<open>Facts about lists and about concatenation\<close>

lemma nth_concat_blocks:
  "(\<And>k. k < m \<Longrightarrow> length (f k) = n) \<Longrightarrow> i < m \<Longrightarrow> j < n \<Longrightarrow>
   concat (map f [0..<m]) ! (i * n + j) = f i ! j"
proof (induction m)
  case 0 then show ?case by simp
next
  case (Suc m)
  have len: "length (concat (map f [0..<m])) = m * n"
    using Suc.prems(1) by (induction m) (simp_all add: less_Suc_eq)
  show ?case
  proof (cases "i < m")
    case True
    then have "Suc i \<le> m" by simp
    then have "Suc i * n \<le> m * n" by (rule mult_le_mono1)
    then have "i * n + j < m * n" using Suc.prems(3) by simp
    with True Suc show ?thesis by (simp add: nth_append len)
  next
    case False
    with Suc.prems have "i = m" by simp
    then show ?thesis by (simp add: nth_append len)
  qed
qed

lemma length_concat_blocks:
  "(\<And>k. k < m \<Longrightarrow> length (f k) = n) \<Longrightarrow> length (concat (map f [0..<m])) = m * n"
  by (induction m) (simp_all add: less_Suc_eq)

section \<open>The distance matrices: what the builders return\<close>

lemma cat_row_shape:
  assumes "cat (to_device (ones [1, 32] torch_float32 cpu) dev) t 0 = Inr t1"
  shows "\<exists>r. shape t = [r, 32]"
proof -
  from assms have len: "length (shape t) = 2" and upd: "(shape t)[0 := 0] = [0, 32]"
    by (auto simp: cat_def ones_def to_device_def split: if_splits)
  from len obtain r c where rc: "shape t = [r, c]"
    by (auto simp: length_Suc_conv numeral_2_eq_2)
  with upd show ?thesis by simp
qed

lemma cat_row_value:
  assumes "shape t = [r, 32]" "device t = dev"
  shows "cat (to_device (ones [1, 32] torch_float32 cpu) dev) t 0 =
         Inr \<lparr>shape = [Suc r, 32], dtype = promote_types torch_float32 (dtype t), device = dev,
              elems = replicate 32 1 @ take (r * 32) (elems t)\<rparr>"
  using assms by (simp add: cat_def ones_def to_device_def)

lemma cat_col_shape:
  assumes "cat (to_device (ones [33, 1] torch_float32 cpu) dev) t 1 = Inr t1"
  shows "\<exists>c. shape t = [33, c]"
proof -
  from assms have len: "length (shape t) = 2" and upd: "(shape t)[1 := 0] = [33, 0]"
    by (auto simp: cat_def ones_def to_device_def split: if_splits)
  from len obtain r c where rc: "shape t = [r, c]"
    by (auto simp: length_Suc_conv numeral_2_eq_2)
  with upd show ?thesis by simp
qed

lemma cat_col_value:
  assumes "shape t = [33, c]" "device t = dev"
  shows "cat (to_device (ones [33, 1] torch_float32 cpu) dev) t 1 =
         Inr \<lparr>shape = [33, Suc c], dtype = promote_types torch_float32 (dtype t), device = dev,
              elems = concat (map (\<lambda>k. take 1 (drop k (replicate 33 1)) @ take c (drop (k * c) (elems t))) [0..<33])\<rparr>"
  using assms by (simp add: cat_def ones_def to_device_def)

lemma background_nth:
  assumes len: "length e = 1024" and i: "i < 33" and j: "j < 33"
  shows "(concat (map (\<lambda>k. take 1 (drop k (replicate 33 (1::real)))
                             @ take 32 (drop (k * 32) (replicate 32 1 @ e))) [0..<33]))[0 := 0]
           ! (i * 33 + j)
         = (if i = 0 \<and> j = 0 then 0 else if i = 0 \<or> j = 0 then 1
            else e ! ((i - 1) * 32 + (j - 1)))"
proof -
  let ?f = "\<lambda>k. take 1 (drop k (replicate 33 (1::real))) @ take 32 (drop (k * 32) (replicate 32 1 @ e))"
  have flen: "\<And>k. k < 33 \<Longrightarrow> length (?f k) = 33"
    using len by simp
  have clen: "length (concat (map ?f [0..<33])) = 33 * 33"
    by (rule length_concat_blocks) (rule flen)
  have blk: "concat (map ?f [0..<33]) ! (i * 33 + j) = ?f i ! j"
    by (rule nth_concat_blocks) (use flen i j in auto)
  have fi: "?f i ! j = (if j = 0 then 1 else if i = 0 then 1 else e ! ((i - 1) * 32 + (j - 1)))"
  proof (cases j)
    case 0
    with i show ?thesis by (simp add: nth_append)
  next
    case (Suc j')
    with j have j': "j' < 32" by simp
    have "?f i ! j = take 32 (drop (i * 32) (replicate 32 1 @ e)) ! j'"
      using Suc i by (simp add: nth_append)
    also have "\<dots> = (replicate 32 1 @ e) ! (i * 32 + j')"
      using j' len i by (simp del: drop_append take_append)
    also have "\<dots> = (if i = 0 then 1 else e ! ((i - 1) * 32 + j'))"
    proof (cases i)
      case 0 with j' show ?thesis by (simp add: nth_append)
    next
      case (Suc i')
      then show ?thesis by (simp add: nth_append)
    qed
    finally show ?thesis using Suc by simp
  qed
  show ?thesis
  proof (cases "i = 0 \<and> j = 0")
    case True
    then show ?thesis using clen by simp
  next
    case False
    then have "i * 33 + j \<noteq> 0" by simp
    then have "(concat (map ?f [0..<33]))[0 := 0] ! (i * 33 + j) = concat (map ?f [0..<33]) ! (i * 33 + j)"
      by simp
    with blk fi False show ?thesis by auto
  qed
qed

lemma tooth_value:
  assumes "fs (if truthy q then wasserstein_matrix_npy else wasserstein_matrix_equal_npy) = Some tbl"
    and "shape tbl = [32, 32]"
  shows "snd (get_tooth_dist_matrix fs dev q) =
         Inr \<lparr>shape = [33, 33],
              dtype = promote_types torch_float32 (promote_types torch_float32 (dtype tbl)),
              device = dev,
              elems = (concat (map (\<lambda>k. take 1 (drop k (replicate 33 1))
                                   @ take 32 (drop (k * 32) (replicate 32 1 @ take 1024 (elems tbl))))
                                [0..<33]))[0 := 0]\<rparr>"
proof -
  have s: "shape (to_device tbl dev) = [32, 32]" "device (to_device tbl dev) = dev"
    "elems (to_device tbl dev) = elems tbl" "dtype (to_device tbl dev) = dtype tbl"
    using assms by (simp_all add: to_device_def)
  have c1: "cat (to_device (ones [1, 32] torch_float32 cpu) dev) (to_device tbl dev) 0 =
         Inr \<lparr>shape = [33, 32], dtype = promote_types torch_float32 (dtype tbl), device = dev,
              elems = replicate 32 1 @ take 1024 (elems tbl)\<rparr>"
    using cat_row_value [OF s(1) s(2)] s
    by (simp del: drop_append take_append drop_replicate take_replicate)
  have c2: "cat (to_device (ones [33, 1] torch_float32 cpu) dev)
              \<lparr>shape = [33, 32], dtype = promote_types torch_float32 (dtype tbl), device = dev,
               elems = replicate 32 1 @ take 1024 (elems tbl)\<rparr> 1 =
         Inr \<lparr>shape = [33, 33],
              dtype = promote_types torch_float32 (promote_types torch_float32 (dtype tbl)),
              device = dev,
              elems = concat (map (\<lambda>k. take 1 (drop k (replicate 33 1))
                                   @ take 32 (drop (k * 32) (replicate 32 1 @ take 1024 (elems tbl))))
                                [0..<33])\<rparr>"
    by (subst cat_col_value [where c = 32])
       (simp_all del: drop_append take_append drop_replicate take_replicate)
  have "snd (get_tooth_dist_matrix fs dev q) =
        (case cat (to_device (ones [1, 32] torch_float32 cpu) dev) (to_device tbl dev) 0 of
           Inl e \<Rightarrow> Inl e
         | Inr dm \<Rightarrow>
             (case cat (to_device (ones [33, 1] torch_float32 cpu) dev) dm 1 of
                Inl e \<Rightarrow> Inl e
              | Inr dm \<Rightarrow> setitem2 dm 0 0 0))"
    using assms(1)
    by (cases "truthy q")
       (simp_all add: get_tooth_dist_matrix_def np_load_def del: One_nat_def)
  also have "\<dots> = setitem2 \<lparr>shape = [33, 33],
              dtype = promote_types torch_float32 (promote_types torch_float32 (dtype tbl)),
              device = dev,
              elems = concat (map (\<lambda>k. take 1 (drop k (replicate 33 1))
                                   @ take 32 (drop (k * 32) (replicate 32 1 @ take 1024 (elems tbl))))
                                [0..<33])\<rparr> 0 0 0"
    by (simp only: c1 c2 sum.case)
  finally show ?thesis
    by (simp add: setitem2_def del: drop_append take_append drop_replicate take_replicate One_nat_def)
qed

lemma tooth_built:
  assumes "snd (get_tooth_dist_matrix fs dev q) = Inr m"
  shows "\<exists>tbl. fs (if truthy q then wasserstein_matrix_npy else wasserstein_matrix_equal_npy) = Some tbl
          \<and> shape tbl = [32, 32]"
proof -
  let ?p = "if truthy q then wasserstein_matrix_npy else wasserstein_matrix_equal_npy"
  from assms obtain tbl where tbl: "fs ?p = Some tbl"
    by (cases "fs ?p") (auto simp: get_tooth_dist_matrix_def np_load_def split: if_splits)
  from assms tbl obtain t1 t2 where
    t1: "cat (to_device (ones [1, 32] torch_float32 cpu) dev) (to_device tbl dev) 0 = Inr t1" and
    t2: "cat (to_device (ones [33, 1] torch_float32 cpu) dev) t1 1 = Inr t2"
    by (auto simp: get_tooth_dist_matrix_def np_load_def split: if_splits sum.splits)
  from cat_row_shape [OF t1] obtain r where r: "shape tbl = [r, 32]"
    by (auto simp: to_device_def)
  have "cat (to_device (ones [1, 32] torch_float32 cpu) dev) (to_device tbl dev) 0 =
         Inr \<lparr>shape = [Suc r, 32], dtype = promote_types torch_float32 (dtype (to_device tbl dev)), device = dev,
              elems = replicate 32 1 @ take (r * 32) (elems (to_device tbl dev))\<rparr>"
    by (rule cat_row_value) (simp_all add: to_device_def r)
  with t1 have "shape t1 = [Suc r, 32]" by auto
  moreover from cat_col_shape [OF t2] obtain c where "shape t1 = [33, c]" by blast
  ultimately have "r = 32" by simp
  with r tbl show ?thesis by simp
qed

lemma tooth_shape_origin:
  assumes "snd (get_tooth_dist_matrix fs dev q) = Inr m"
  shows "shape m = [33, 33] \<and> getitem2 m 0 0 = Inr 0"
proof -
  from tooth_built [OF assms] obtain tbl where
    tbl: "fs (if truthy q then wasserstein_matrix_npy else wasserstein_matrix_equal_npy) = Some tbl"
      "shape tbl = [32, 32]" by blast
  let ?f = "\<lambda>k. take 1 (drop k (replicate 33 (1::real)))
                 @ take 32 (drop (k * 32) (replicate 32 1 @ take 1024 (elems tbl)))"
  have m: "m = \<lparr>shape = [33, 33],
              dtype = promote_types torch_float32 (promote_types torch_float32 (dtype tbl)),
              device = dev, elems = (concat (map ?f [0..<33]))[0 := 0]\<rparr>"
    using tooth_value [of fs q tbl dev] tbl assms by simp
  have "?f 0 \<noteq> []" by simp
  then have "concat (map ?f [0..<33]) \<noteq> []" by (subst upt_rec) simp
  then have "(concat (map ?f [0..<33]))[0 := 0] ! 0 = 0" by simp
  then show ?thesis by (simp add: m getitem2_def)
qed

lemma tooth_getitem:
  assumes "fs (if truthy q then wasserstein_matrix_npy else wasserstein_matrix_equal_npy) = Some tbl"
    and "shape tbl = [32, 32]" and "length (elems tbl) = 1024" and "i < 33" and "j < 33"
  shows "getitem2_of (snd (get_tooth_dist_matrix fs dev q)) i j =
         Inr (if i = 0 \<and> j = 0 then 0 else if i = 0 \<or> j = 0 then 1
              else elems tbl ! ((i - 1) * 32 + (j - 1)))"
proof -
  have v: "snd (get_tooth_dist_matrix fs dev q) =
         Inr \<lparr>shape = [33, 33],
              dtype = promote_types torch_float32 (promote_types torch_float32 (dtype tbl)),
              device = dev,
              elems = (concat (map (\<lambda>k. take 1 (drop k (replicate 33 1))
                                   @ take 32 (drop (k * 32) (replicate 32 1 @ elems tbl)))
                                [0..<33]))[0 := 0]\<rparr>"
    using tooth_value [of fs q tbl dev] assms(1,2,3) by simp
  show ?thesis
    using background_nth [OF assms(3) assms(4) assms(5)] assms(4,5)
    by (simp add: v getitem2_of_def getitem2_def
          del: drop_append take_append drop_replicate take_replicate One_nat_def)
qed

lemma equall_value:
  "get_equall_dist_matrix dev =
     Inr \<lparr>shape = [33, 33], dtype = torch_float64, device = dev,
          elems = (replicate 1089 1)[0 := 0]\<rparr>"
  by (simp add: get_equall_dist_matrix_def setitem2_def ones_def)

lemma equall_getitem:
  assumes "i < 33" and "j < 33"
  shows "getitem2_of (get_equall_dist_matrix dev) i j = Inr (if i = 0 \<and> j = 0 then 0 else 1)"
proof -
  have "i * 33 + j < 1089" using assms by simp
  then show ?thesis
    using assms by (auto simp: equall_value getitem2_of_def getitem2_def nth_list_update)
qed

lemma paths_differ: "wasserstein_matrix_npy \<noteq> wasserstein_matrix_equal_npy"
  by (simp add: wasserstein_matrix_npy_def wasserstein_matrix_equal_npy_def)

lemma tbl_getitem:
  "shape tbl = [32, 32] \<Longrightarrow> i < 32 \<Longrightarrow> j < 32 \<Longrightarrow> getitem2 tbl i j = Inr (elems tbl ! (i * 32 + j))"
  by (simp add: getitem2_def)

lemma sample_fs_quarter: "sample_fs wasserstein_matrix_npy = Some sample_table"
  using paths_differ by (simp add: sample_fs_def)

lemma sample_fs_equal:
  "sample_fs wasserstein_matrix_equal_npy = Some (ones [32, 32] torch_float64 cpu)"
  by (simp add: sample_fs_def)

text \<open>
  C4. The matrix that \<open>get_tooth_dist_matrix\<close> returns, for either table, and the
  one that \<open>get_equall_dist_matrix\<close> returns have 33 rows and 33 columns (32 classes
  and the background). \<open>get_tooth_dist_matrix\<close> returns a matrix whenever the file it
  selects holds a table of 32 rows and 32 columns, and the matrix is that table with one
  row and one column of ones before it: the entry \<open>[0][0]\<close> is 0, the entries
  \<open>[0][k]\<close> and \<open>[k][0]\<close> are 1 for \<open>k\<close> from 1 to 32, and the entry \<open>[i][j]\<close> is
  the entry \<open>[i-1][j-1]\<close> of the table for \<open>i\<close>, \<open>j\<close> from 1 to 32. The matrix
  of \<open>get_equall_dist_matrix\<close> has the same first row, first column and \<open>[0][0]\<close>.
\<close>

theorem dist_matrix_background:
  "(\<forall>m. snd (get_tooth_dist_matrix fs dev q) = Inr m \<longrightarrow>
      shape m = [33, 33] \<and> getitem2 m 0 0 = Inr 0)
   \<and> (fs (if truthy q then wasserstein_matrix_npy else wasserstein_matrix_equal_npy) = Some tbl
        \<and> shape tbl = [32, 32] \<and> wf_tensor tbl \<longrightarrow>
      (\<exists>m'. snd (get_tooth_dist_matrix fs dev q) = Inr m'
         \<and> shape m' = [33, 33] \<and> getitem2 m' 0 0 = Inr 0
         \<and> (\<forall>k\<in>{1..32}. getitem2 m' 0 k = Inr 1 \<and> getitem2 m' k 0 = Inr 1)
         \<and> (\<forall>i\<in>{1..32}. \<forall>j\<in>{1..32}. getitem2 m' i j = getitem2 tbl (i - 1) (j - 1))))
   \<and> (\<exists>m'. get_equall_dist_matrix dev = Inr m'
         \<and> shape m' = [33, 33] \<and> getitem2 m' 0 0 = Inr 0
         \<and> (\<forall>k\<in>{1..32}. getitem2 m' 0 k = Inr 1 \<and> getitem2 m' k 0 = Inr 1))"
proof (intro conjI impI)
  show "\<forall>m. snd (get_tooth_dist_matrix fs dev q) = Inr m \<longrightarrow>
      shape m = [33, 33] \<and> getitem2 m 0 0 = Inr 0"
    using tooth_shape_origin by blast
next
  let ?p = "if truthy q then wasserstein_matrix_npy else wasserstein_matrix_equal_npy"
  assume a: "fs ?p = Some tbl \<and> shape tbl = [32, 32] \<and> wf_tensor tbl"
  then have tbl: "fs ?p = Some tbl" and sh: "shape tbl = [32, 32]"
    and len: "length (elems tbl) = 1024"
    by (simp_all add: wf_tensor_def)
  from tooth_value [of fs q tbl dev] tbl sh obtain m' where
    m': "snd (get_tooth_dist_matrix fs dev q) = Inr m'" and shm: "shape m' = [33, 33]"
    by simp
  have g: "\<And>i j. i < 33 \<Longrightarrow> j < 33 \<Longrightarrow> getitem2 m' i j =
         Inr (if i = 0 \<and> j = 0 then 0 else if i = 0 \<or> j = 0 then 1
              else elems tbl ! ((i - 1) * 32 + (j - 1)))"
    using tooth_getitem [of fs q tbl _ _ dev] tbl sh len by (simp add: m' getitem2_of_def)
  have "getitem2 m' 0 0 = Inr 0" using g [of 0 0] by simp
  moreover have "\<forall>k\<in>{1..32}. getitem2 m' 0 k = Inr 1 \<and> getitem2 m' k 0 = Inr 1"
  proof
    fix k :: nat assume "k \<in> {1..32}"
    then have "k < 33" "k \<noteq> 0" by auto
    then show "getitem2 m' 0 k = Inr 1 \<and> getitem2 m' k 0 = Inr 1"
      using g [of 0 k] g [of k 0] by simp
  qed
  moreover have "\<forall>i\<in>{1..32}. \<forall>j\<in>{1..32}. getitem2 m' i j = getitem2 tbl (i - 1) (j - 1)"
  proof (intro ballI)
    fix i j :: nat assume "i \<in> {1..32}" "j \<in> {1..32}"
    then have ij: "i < 33" "j < 33" "i \<noteq> 0" "j \<noteq> 0" "i - 1 < 32" "j - 1 < 32" by auto
    show "getitem2 m' i j = getitem2 tbl (i - 1) (j - 1)"
      using g [OF ij(1) ij(2)] ij(3,4) tbl_getitem [OF sh ij(5) ij(6)] by simp
  qed
  ultimately show "\<exists>m'. snd (get_tooth_dist_matrix fs dev q) = Inr m'
         \<and> shape m' = [33, 33] \<and> getitem2 m' 0 0 = Inr 0
         \<and> (\<forall>k\<in>{1..32}. getitem2 m' 0 k = Inr 1 \<and> getitem2 m' k 0 = Inr 1)
         \<and> (\<forall>i\<in>{1..32}. \<forall>j\<in>{1..32}. getitem2 m' i j = getitem2 tbl (i - 1) (j - 1))"
    using m' shm by blast
next
  obtain m' where m': "get_equall_dist_matrix dev = Inr m'" and shm: "shape m' = [33, 33]"
    by (simp add: equall_value)
  have g: "\<And>i j. i < 33 \<Longrightarrow> j < 33 \<Longrightarrow> getitem2 m' i j = Inr (if i = 0 \<and> j = 0 then 0 else 1)"
    using equall_getitem [of _ _ dev] by (simp add: m' getitem2_of_def)
  have "getitem2 m' 0 0 = Inr 0" using g [of 0 0] by simp
  moreover have "\<forall>k\<in>{1..32}. getitem2 m' 0 k = Inr 1 \<and> getitem2 m' k 0 = Inr 1"
  proof
    fix k :: nat assume "k \<in> {1..32}"
    then have "k < 33" "k \<noteq> 0" by auto
    then show "getitem2 m' 0 k = Inr 1 \<and> getitem2 m' k 0 = Inr 1"
      using g [of 0 k] g [of k 0] by simp
  qed
  ultimately show "\<exists>m'. get_equall_dist_matrix dev = Inr m'
         \<and> shape m' = [33, 33] \<and> getitem2 m' 0 0 = Inr 0
         \<and> (\<forall>k\<in>{1..32}. getitem2 m' 0 k = Inr 1 \<and> getitem2 m' k 0 = Inr 1)"
    using m' shm by blast
qed

theorem dist_matrix_background_witness:
  "getitem2_of (snd (get_tooth_dist_matrix sample_fs (cuda 0) (PyStr ''True''))) 0 0 = Inr 0
   \<and> getitem2_of (snd (get_tooth_dist_matrix sample_fs (cuda 0) (PyStr ''True''))) 0 7 = Inr 1
   \<and> getitem2_of (snd (get_tooth_dist_matrix sample_fs (cuda 0) (PyStr ''True''))) 7 0 = Inr 1
   \<and> getitem2_of (snd (get_tooth_dist_matrix sample_fs (cuda 0) (PyStr ''True''))) 2 3 = Inr 34
   \<and> getitem2_of (get_equall_dist_matrix (cuda 0)) 0 7 = Inr 1"
proof -
  have h: "sample_fs (if truthy (PyStr ''True'') then wasserstein_matrix_npy
                      else wasserstein_matrix_equal_npy) = Some sample_table
           \<and> shape sample_table = [32, 32] \<and> wf_tensor sample_table"
    by (simp add: sample_fs_quarter sample_table_def wf_tensor_def)
  have t: "getitem2 sample_table (2 - 1) (3 - 1) = Inr 34"
    by (simp add: sample_table_def getitem2_def)
  note inst = dist_matrix_background [of sample_fs "cuda 0" "PyStr ''True''" sample_table]
  from inst h obtain m where
    m: "snd (get_tooth_dist_matrix sample_fs (cuda 0) (PyStr ''True'')) = Inr m"
       "getitem2 m 0 0 = Inr 0"
       "\<forall>k\<in>{1..32}. getitem2 m 0 k = Inr 1 \<and> getitem2 m k 0 = Inr 1"
       "\<forall>i\<in>{1..32}. \<forall>j\<in>{1..32}. getitem2 m i j = getitem2 sample_table (i - 1) (j - 1)"
    by blast
  from inst obtain m' where
    m': "get_equall_dist_matrix (cuda 0) = Inr m'"
        "\<forall>k\<in>{1..32}. getitem2 m' 0 k = Inr 1 \<and> getitem2 m' k 0 = Inr 1"
    by blast
  have "(7::nat) \<in> {1..32}" "(2::nat) \<in> {1..32}" "(3::nat) \<in> {1..32}" by simp_all
  with m m' t show ?thesis
    by (simp add: getitem2_of_def del: One_nat_def)
qed

text \<open>
  C1, as the code has it. Every matrix that a builder returns has the entry \<open>[0][0]\<close>,
  the distance of the background class to itself, equal to 0. The other entries of the
  diagonal are not cleared: for \<open>i\<close> from 1 to 32, the entry \<open>[i][i]\<close> of the matrix
  of \<open>get_tooth_dist_matrix\<close> is the entry \<open>[i-1][i-1]\<close> of the table it loaded,
  and the entry \<open>[i][i]\<close> of the matrix of \<open>get_equall_dist_matrix\<close> is 1.
\<close>

theorem dist_matrix_diagonal:
  "(\<forall>m. snd (get_tooth_dist_matrix fs dev q) = Inr m \<longrightarrow> getitem2 m 0 0 = Inr 0)
   \<and> (fs (if truthy q then wasserstein_matrix_npy else wasserstein_matrix_equal_npy) = Some tbl
        \<and> shape tbl = [32, 32] \<and> wf_tensor tbl \<longrightarrow>
      getitem2_of (snd (get_tooth_dist_matrix fs dev q)) 0 0 = Inr 0
      \<and> (\<forall>i\<in>{1..32}. getitem2_of (snd (get_tooth_dist_matrix fs dev q)) i i
                         = getitem2 tbl (i - 1) (i - 1)))
   \<and> getitem2_of (get_equall_dist_matrix dev) 0 0 = Inr 0
   \<and> (\<forall>i\<in>{1..32}. getitem2_of (get_equall_dist_matrix dev) i i = Inr 1)"
proof (intro conjI impI)
  show "\<forall>m. snd (get_tooth_dist_matrix fs dev q) = Inr m \<longrightarrow> getitem2 m 0 0 = Inr 0"
    using tooth_shape_origin by blast
next
  let ?p = "if truthy q then wasserstein_matrix_npy else wasserstein_matrix_equal_npy"
  assume a: "fs ?p = Some tbl \<and> shape tbl = [32, 32] \<and> wf_tensor tbl"
  then have tbl: "fs ?p = Some tbl" and sh: "shape tbl = [32, 32]"
    and len: "length (elems tbl) = 1024"
    by (simp_all add: wf_tensor_def)
  note g = tooth_getitem [of fs q tbl _ _ dev, OF tbl sh len]
  show "getitem2_of (snd (get_tooth_dist_matrix fs dev q)) 0 0 = Inr 0"
    using g [of 0 0] by simp
  show "\<forall>i\<in>{1..32}. getitem2_of (snd (get_tooth_dist_matrix fs dev q)) i i
                         = getitem2 tbl (i - 1) (i - 1)"
  proof
    fix i :: nat assume "i \<in> {1..32}"
    then have i: "i < 33" "i \<noteq> 0" "i - 1 < 32" by auto
    show "getitem2_of (snd (get_tooth_dist_matrix fs dev q)) i i = getitem2 tbl (i - 1) (i - 1)"
      using g [OF i(1) i(1)] i(2) tbl_getitem [OF sh i(3) i(3)] by simp
  qed
next
  show "getitem2_of (get_equall_dist_matrix dev) 0 0 = Inr 0"
    using equall_getitem [of 0 0 dev] by simp
  show "\<forall>i\<in>{1..32}. getitem2_of (get_equall_dist_matrix dev) i i = Inr 1"
  proof
    fix i :: nat assume "i \<in> {1..32}"
    then have i: "i < 33" "i \<noteq> 0" by auto
    show "getitem2_of (get_equall_dist_matrix dev) i i = Inr 1"
      using equall_getitem [OF i(1) i(1), of dev] i(2) by simp
  qed
qed

theorem dist_matrix_diagonal_witness:
  "getitem2_of (snd (get_tooth_dist_matrix sample_fs cpu (PyBool True))) 0 0 = Inr 0
   \<and> getitem2_of (snd (get_tooth_dist_matrix sample_fs cpu (PyBool True))) 2 2 = Inr 33
   \<and> getitem2_of (get_equall_dist_matrix cpu) 2 2 = Inr 1"
proof -
  have h: "sample_fs (if truthy (PyBool True) then wasserstein_matrix_npy
                      else wasserstein_matrix_equal_npy) = Some sample_table
           \<and> shape sample_table = [32, 32] \<and> wf_tensor sample_table"
    by (simp add: sample_fs_quarter sample_table_def wf_tensor_def)
  have t: "getitem2 sample_table (2 - 1) (2 - 1) = Inr 33"
    by (simp add: sample_table_def getitem2_def)
  have "(2::nat) \<in> {1..32}" by simp
  with dist_matrix_diagonal [of sample_fs cpu "PyBool True" sample_table] h t
  show ?thesis by (simp del: One_nat_def)
qed

text \<open>
  The entry \<open>[1][1]\<close> of the matrix of \<open>get_equall_dist_matrix\<close> is 1, not 0: the
  self-distance is not zero for every class.
\<close>

theorem equall_diagonal_counterexample:
  "getitem2_of (get_equall_dist_matrix cpu) 1 1 = Inr 1
   \<and> getitem2_of (get_equall_dist_matrix cpu) 1 1 \<noteq> Inr 0"
  using equall_getitem [of 1 1 cpu] by simp

text \<open>
  C8. In the matrix of \<open>get_equall_dist_matrix\<close>, 33 by 33, every entry is 1 but the
  entry \<open>[0][0]\<close>, which is 0; so every entry with both indices greater than 0 is 1.
  \<open>get_tooth_dist_matrix\<close> with a false argument returns the same entries when the
  file of the equal table holds 32 rows and 32 columns of ones.
\<close>

theorem equall_entries:
  "(\<exists>m. get_equall_dist_matrix dev = Inr m \<and> shape m = [33, 33]
        \<and> (\<forall>i<33. \<forall>j<33. getitem2 m i j = Inr (if i = 0 \<and> j = 0 then 0 else 1)))
   \<and> (\<not> truthy q \<and> fs wasserstein_matrix_equal_npy = Some (ones [32, 32] dt dev') \<longrightarrow>
        (\<forall>i<33. \<forall>j<33. getitem2_of (snd (get_tooth_dist_matrix fs dev q)) i j
                          = Inr (if i = 0 \<and> j = 0 then 0 else 1)))"
proof (intro conjI impI)
  obtain m where m: "get_equall_dist_matrix dev = Inr m" and shm: "shape m = [33, 33]"
    by (simp add: equall_value)
  have "\<forall>i<33. \<forall>j<33. getitem2 m i j = Inr (if i = 0 \<and> j = 0 then 0 else 1)"
    using equall_getitem [of _ _ dev] by (simp add: m getitem2_of_def)
  with m shm show "\<exists>m. get_equall_dist_matrix dev = Inr m \<and> shape m = [33, 33]
        \<and> (\<forall>i<33. \<forall>j<33. getitem2 m i j = Inr (if i = 0 \<and> j = 0 then 0 else 1))"
    by blast
next
  assume a: "\<not> truthy q \<and> fs wasserstein_matrix_equal_npy = Some (ones [32, 32] dt dev')"
  let ?tbl = "ones [32, 32] dt dev'"
  have tbl: "fs (if truthy q then wasserstein_matrix_npy else wasserstein_matrix_equal_npy) = Some ?tbl"
    using a by simp
  have sh: "shape ?tbl = [32, 32]" and len: "length (elems ?tbl) = 1024"
    and el: "elems ?tbl = replicate 1024 1"
    by (simp_all add: ones_def)
  note g = tooth_getitem [of fs q ?tbl _ _ dev, OF tbl sh len]
  show "\<forall>i<33. \<forall>j<33. getitem2_of (snd (get_tooth_dist_matrix fs dev q)) i j
                          = Inr (if i = 0 \<and> j = 0 then 0 else 1)"
  proof (intro allI impI)
    fix i j :: nat assume ij: "i < 33" "j < 33"
    have "i \<noteq> 0 \<Longrightarrow> j \<noteq> 0 \<Longrightarrow> (i - 1) * 32 + (j - 1) < 1024" using ij by simp
    then show "getitem2_of (snd (get_tooth_dist_matrix fs dev q)) i j
                          = Inr (if i = 0 \<and> j = 0 then 0 else 1)"
      using g [OF ij] by (auto simp: el)
  qed
qed

theorem equall_entries_witness:
  "getitem2_of (get_equall_dist_matrix cpu) 0 0 = Inr 0
   \<and> getitem2_of (get_equall_dist_matrix cpu) 4 9 = Inr 1
   \<and> getitem2_of (snd (get_tooth_dist_matrix sample_fs cpu (PyBool False))) 4 9 = Inr 1"
proof -
  note inst = equall_entries [of cpu "PyBool False" sample_fs torch_float64 cpu]
  from inst obtain m where
    m: "get_equall_dist_matrix cpu = Inr m"
       "\<forall>i<33. \<forall>j<33. getitem2 m i j = Inr (if i = 0 \<and> j = 0 then 0 else 1)"
    by blast
  have h: "\<not> truthy (PyBool False)
           \<and> sample_fs wasserstein_matrix_equal_npy = Some (ones [32, 32] torch_float64 cpu)"
    by (simp add: sample_fs_equal)
  with inst have
    t: "\<forall>i<33. \<forall>j<33. getitem2_of (snd (get_tooth_dist_matrix sample_fs cpu (PyBool False))) i j
                          = Inr (if i = 0 \<and> j = 0 then 0 else 1)"
    by blast
  have "(0::nat) < 33" "(4::nat) < 33" "(9::nat) < 33" by simp_all
  with m t show ?thesis by (simp add: getitem2_of_def)
qed

lemma tooth_missing:
  assumes "fs (if truthy q then wasserstein_matrix_npy else wasserstein_matrix_equal_npy) = None"
  shows "get_tooth_dist_matrix fs dev q =
           ([Load (if truthy q then wasserstein_matrix_npy else wasserstein_matrix_equal_npy)],
            Inl (FileNotFoundError
                   (if truthy q then wasserstein_matrix_npy else wasserstein_matrix_equal_npy)))"
  using assms by (cases "truthy q") (simp_all add: get_tooth_dist_matrix_def np_load_def)

lemma tooth_depends:
  assumes "fs (if truthy q then wasserstein_matrix_npy else wasserstein_matrix_equal_npy)
           = fs' (if truthy q then wasserstein_matrix_npy else wasserstein_matrix_equal_npy)"
  shows "get_tooth_dist_matrix fs dev q = get_tooth_dist_matrix fs' dev q"
  using assms by (cases "truthy q") (simp_all add: get_tooth_dist_matrix_def np_load_def)

lemma tooth_entries:
  assumes "fs (if truthy q then wasserstein_matrix_npy else wasserstein_matrix_equal_npy) = Some tbl"
    and "shape tbl = [32, 32]" and "wf_tensor tbl"
  shows "\<exists>m. snd (get_tooth_dist_matrix fs dev q) = Inr m
           \<and> (\<forall>i\<in>{1..32}. \<forall>j\<in>{1..32}. getitem2 m i j = getitem2 tbl (i - 1) (j - 1))"
proof -
  have len: "length (elems tbl) = 1024" using assms(2,3) by (simp add: wf_tensor_def)
  from tooth_value [of fs q tbl dev] assms(1,2) obtain m where
    m: "snd (get_tooth_dist_matrix fs dev q) = Inr m" by simp
  have g: "\<And>i j. i < 33 \<Longrightarrow> j < 33 \<Longrightarrow> getitem2 m i j =
         Inr (if i = 0 \<and> j = 0 then 0 else if i = 0 \<or> j = 0 then 1
              else elems tbl ! ((i - 1) * 32 + (j - 1)))"
    using tooth_getitem [of fs q tbl _ _ dev] assms(1,2) len by (simp add: m getitem2_of_def)
  have "\<forall>i\<in>{1..32}. \<forall>j\<in>{1..32}. getitem2 m i j = getitem2 tbl (i - 1) (j - 1)"
  proof (intro ballI)
    fix i j :: nat assume "i \<in> {1..32}" "j \<in> {1..32}"
    then have ij: "i < 33" "j < 33" "i \<noteq> 0" "j \<noteq> 0" "i - 1 < 32" "j - 1 < 32" by auto
    show "getitem2 m i j = getitem2 tbl (i - 1) (j - 1)"
      using g [OF ij(1) ij(2)] ij(3,4) tbl_getitem [OF assms(2) ij(5) ij(6)] by simp
  qed
  with m show ?thesis by blast
qed

lemma tooth_labels:
  "quarter_penalty_default = PyStr ''True''
   \<and> (s \<noteq> [] \<longrightarrow>
        get_tooth_dist_matrix fs dev (PyStr s) = get_tooth_dist_matrix fs dev (PyBool True)
        \<and> hd (fst (get_tooth_dist_matrix fs dev (PyStr s))) = Load wasserstein_matrix_npy
        \<and> Load wasserstein_matrix_equal_npy \<notin> set (fst (get_tooth_dist_matrix fs dev (PyStr s))))
   \<and> (s \<noteq> [] \<and> fs wasserstein_matrix_npy = Some tbl \<longrightarrow>
        fst (get_tooth_dist_matrix fs dev (PyStr s))
          = [Load wasserstein_matrix_npy, Print ''Using intra quarters penalty''])
   \<and> hd (fst (get_tooth_dist_matrix fs dev (PyStr ''False''))) = Load wasserstein_matrix_npy
   \<and> (Load wasserstein_matrix_npy \<in> set (fst (get_tooth_dist_matrix fs dev q)) \<longleftrightarrow> truthy q)
   \<and> (Load wasserstein_matrix_equal_npy \<in> set (fst (get_tooth_dist_matrix fs dev q))
        \<longleftrightarrow> \<not> truthy q)
   \<and> get_tooth_dist_matrix fs dev (PyBool False) = get_tooth_dist_matrix fs dev PyNone
   \<and> hd (fst (get_tooth_dist_matrix fs dev (PyBool False))) = Load wasserstein_matrix_equal_npy"
  using paths_differ
  by (auto simp: quarter_penalty_default_def get_tooth_dist_matrix_def np_load_def
           split: option.splits)

text \<open>
  C10. \<open>get_tooth_dist_matrix\<close> chooses the table by the truth value of
  \<open>quarter_penalty\<close>, whose default is the string \<^verbatim>\<open>"True"\<close>. Every string that
  is not empty, the string \<^verbatim>\<open>"False"\<close> among them, is true: the function then
  does what it does for the boolean \<open>True\<close>, it loads the quarter-penalty table (and
  prints that it does, the file being there) and never the equal table. The equal
  table is loaded exactly when the argument is false, as the boolean \<open>False\<close> and
  \<open>None\<close> are. The table that is loaded is the one the result is made from: for a
  string that is not empty the result is the \<open>FileNotFoundError\<close> of the quarter-penalty
  file when that file is missing, its entries \<open>[i][j]\<close> for \<open>i\<close>, \<open>j\<close> from 1 to 32
  are the entries \<open>[i-1][j-1]\<close> of the quarter-penalty table when the file holds one of
  32 rows and 32 columns, and the result is the same on two file systems that hold the
  same quarter-penalty file, whatever the file of the equal table is; for a false
  argument the same holds of the file of the equal table.
\<close>

theorem quarter_penalty_truthiness:
  "(quarter_penalty_default = PyStr ''True''
   \<and> (s \<noteq> [] \<longrightarrow>
        get_tooth_dist_matrix fs dev (PyStr s) = get_tooth_dist_matrix fs dev (PyBool True)
        \<and> hd (fst (get_tooth_dist_matrix fs dev (PyStr s))) = Load wasserstein_matrix_npy
        \<and> Load wasserstein_matrix_equal_npy \<notin> set (fst (get_tooth_dist_matrix fs dev (PyStr s))))
   \<and> (s \<noteq> [] \<and> fs wasserstein_matrix_npy = Some tbl \<longrightarrow>
        fst (get_tooth_dist_matrix fs dev (PyStr s))
          = [Load wasserstein_matrix_npy, Print ''Using intra quarters penalty''])
   \<and> hd (fst (get_tooth_dist_matrix fs dev (PyStr ''False''))) = Load wasserstein_matrix_npy
   \<and> (Load wasserstein_matrix_npy \<in> set (fst (get_tooth_dist_matrix fs dev q)) \<longleftrightarrow> truthy q)
   \<and> (Load wasserstein_matrix_equal_npy \<in> set (fst (get_tooth_dist_matrix fs dev q))
        \<longleftrightarrow> \<not> truthy q)
   \<and> get_tooth_dist_matrix fs dev (PyBool False) = get_tooth_dist_matrix fs dev PyNone
   \<and> hd (fst (get_tooth_dist_matrix fs dev (PyBool False))) = Load wasserstein_matrix_equal_npy)
   \<and> (s \<noteq> [] \<and> fs wasserstein_matrix_npy = None \<longrightarrow>
        get_tooth_dist_matrix fs dev (PyStr s)
          = ([Load wasserstein_matrix_npy], Inl (FileNotFoundError wasserstein_matrix_npy)))
   \<and> (s \<noteq> [] \<and> fs wasserstein_matrix_npy = Some tbl \<and> shape tbl = [32, 32] \<and> wf_tensor tbl
        \<longrightarrow>
        (\<exists>m. snd (get_tooth_dist_matrix fs dev (PyStr s)) = Inr m
           \<and> (\<forall>i\<in>{1..32}. \<forall>j\<in>{1..32}. getitem2 m i j = getitem2 tbl (i - 1) (j - 1))))
   \<and> (s \<noteq> [] \<and> fs wasserstein_matrix_npy = fs' wasserstein_matrix_npy \<longrightarrow>
        get_tooth_dist_matrix fs dev (PyStr s) = get_tooth_dist_matrix fs' dev (PyStr s))
   \<and> (\<not> truthy q \<and> fs wasserstein_matrix_equal_npy = None \<longrightarrow>
        get_tooth_dist_matrix fs dev q
          = ([Load wasserstein_matrix_equal_npy],
             Inl (FileNotFoundError wasserstein_matrix_equal_npy)))
   \<and> (\<not> truthy q \<and> fs wasserstein_matrix_equal_npy = Some tbl' \<and> shape tbl' = [32, 32]
        \<and> wf_tensor tbl' \<longrightarrow>
        (\<exists>m. snd (get_tooth_dist_matrix fs dev q) = Inr m
           \<and> (\<forall>i\<in>{1..32}. \<forall>j\<in>{1..32}. getitem2 m i j = getitem2 tbl' (i - 1) (j - 1))))
   \<and> (\<not> truthy q \<and> fs wasserstein_matrix_equal_npy = fs' wasserstein_matrix_equal_npy \<longrightarrow>
        get_tooth_dist_matrix fs dev q = get_tooth_dist_matrix fs' dev q)"
proof (intro conjI impI)
  assume "s \<noteq> [] \<and> fs wasserstein_matrix_npy = None"
  then show "get_tooth_dist_matrix fs dev (PyStr s)
          = ([Load wasserstein_matrix_npy], Inl (FileNotFoundError wasserstein_matrix_npy))"
    using tooth_missing [where q = "PyStr s" and fs = fs and dev = dev] by simp
next
  assume "s \<noteq> [] \<and> fs wasserstein_matrix_npy = Some tbl \<and> shape tbl = [32, 32]
          \<and> wf_tensor tbl"
  then show "\<exists>m. snd (get_tooth_dist_matrix fs dev (PyStr s)) = Inr m
           \<and> (\<forall>i\<in>{1..32}. \<forall>j\<in>{1..32}. getitem2 m i j = getitem2 tbl (i - 1) (j - 1))"
    using tooth_entries [where q = "PyStr s" and fs = fs and tbl = tbl and dev = dev] by simp
next
  assume "s \<noteq> [] \<and> fs wasserstein_matrix_npy = fs' wasserstein_matrix_npy"
  then show "get_tooth_dist_matrix fs dev (PyStr s) = get_tooth_dist_matrix fs' dev (PyStr s)"
    using tooth_depends [where q = "PyStr s" and fs = fs and fs' = fs' and dev = dev] by simp
next
  assume "\<not> truthy q \<and> fs wasserstein_matrix_equal_npy = None"
  then show "get_tooth_dist_matrix fs dev q
          = ([Load wasserstein_matrix_equal_npy],
             Inl (FileNotFoundError wasserstein_matrix_equal_npy))"
    using tooth_missing [where q = q and fs = fs and dev = dev] by simp
next
  assume "\<not> truthy q \<and> fs wasserstein_matrix_equal_npy = Some tbl' \<and> shape tbl' = [32, 32]
        \<and> wf_tensor tbl'"
  then show "\<exists>m. snd (get_tooth_dist_matrix fs dev q) = Inr m
           \<and> (\<forall>i\<in>{1..32}. \<forall>j\<in>{1..32}. getitem2 m i j = getitem2 tbl' (i - 1) (j - 1))"
    using tooth_entries [where q = q and fs = fs and tbl = tbl' and dev = dev] by simp
next
  assume "\<not> truthy q \<and> fs wasserstein_matrix_equal_npy = fs' wasserstein_matrix_equal_npy"
  then show "get_tooth_dist_matrix fs dev q = get_tooth_dist_matrix fs' dev q"
    using tooth_depends [where q = q and fs = fs and fs' = fs' and dev = dev] by simp
qed (use tooth_labels [where s = s and fs = fs and dev = dev and tbl = tbl and q = q] in blast)+

theorem quarter_penalty_truthiness_witness:
  "get_tooth_dist_matrix sample_fs cpu (PyStr ''False'')
     = get_tooth_dist_matrix sample_fs cpu (PyBool True)
   \<and> fst (get_tooth_dist_matrix sample_fs cpu (PyStr ''False''))
       = [Load wasserstein_matrix_npy, Print ''Using intra quarters penalty'']
   \<and> Load wasserstein_matrix_equal_npy
       \<notin> set (fst (get_tooth_dist_matrix sample_fs cpu (PyStr ''False'')))
   \<and> getitem2_of (snd (get_tooth_dist_matrix sample_fs cpu (PyStr ''False''))) 2 3 = Inr 34
   \<and> getitem2_of (snd (get_tooth_dist_matrix sample_fs cpu (PyBool False))) 2 3 = Inr 1
   \<and> get_tooth_dist_matrix empty_fs cpu (PyStr ''False'')
       = ([Load wasserstein_matrix_npy], Inl (FileNotFoundError wasserstein_matrix_npy))
   \<and> get_tooth_dist_matrix empty_fs cpu (PyBool False)
       = ([Load wasserstein_matrix_equal_npy],
          Inl (FileNotFoundError wasserstein_matrix_equal_npy))"
proof -
  let ?eq = "ones [32, 32] torch_float64 cpu"
  note inst = quarter_penalty_truthiness
    [where s = "''False''" and fs = sample_fs and dev = cpu and tbl = sample_table
       and q = "PyBool False" and tbl' = ?eq and fs' = sample_fs]
  note miss = quarter_penalty_truthiness
    [where s = "''False''" and fs = empty_fs and dev = cpu and q = "PyBool False"]
  have h: "''False'' \<noteq> [] \<and> sample_fs wasserstein_matrix_npy = Some sample_table
           \<and> shape sample_table = [32, 32] \<and> wf_tensor sample_table"
    by (simp add: sample_fs_quarter sample_table_def wf_tensor_def)
  have h': "\<not> truthy (PyBool False) \<and> sample_fs wasserstein_matrix_equal_npy = Some ?eq
            \<and> shape ?eq = [32, 32] \<and> wf_tensor ?eq"
    by (simp add: sample_fs_equal ones_def wf_tensor_def)
  have e: "''False'' \<noteq> [] \<and> empty_fs wasserstein_matrix_npy = None"
    "\<not> truthy (PyBool False) \<and> empty_fs wasserstein_matrix_equal_npy = None"
    by (simp_all add: empty_fs_def)
  have t: "getitem2 sample_table (2 - 1) (3 - 1) = Inr 34"
    "getitem2 ?eq (2 - 1) (3 - 1) = Inr 1"
    by (simp_all add: sample_table_def getitem2_def ones_def)
  have mem: "(2::nat) \<in> {1..32}" "(3::nat) \<in> {1..32}" by simp_all
  from inst h have 1: "get_tooth_dist_matrix sample_fs cpu (PyStr ''False'')
     = get_tooth_dist_matrix sample_fs cpu (PyBool True)"
    and 2: "fst (get_tooth_dist_matrix sample_fs cpu (PyStr ''False''))
       = [Load wasserstein_matrix_npy, Print ''Using intra quarters penalty'']"
    and 3: "Load wasserstein_matrix_equal_npy
       \<notin> set (fst (get_tooth_dist_matrix sample_fs cpu (PyStr ''False'')))"
    by blast+
  from inst h obtain m where
    m: "snd (get_tooth_dist_matrix sample_fs cpu (PyStr ''False'')) = Inr m"
       "\<forall>i\<in>{1..32}. \<forall>j\<in>{1..32}. getitem2 m i j = getitem2 sample_table (i - 1) (j - 1)"
    by blast
  from inst h' obtain m' where
    m': "snd (get_tooth_dist_matrix sample_fs cpu (PyBool False)) = Inr m'"
        "\<forall>i\<in>{1..32}. \<forall>j\<in>{1..32}. getitem2 m' i j = getitem2 ?eq (i - 1) (j - 1)"
    by blast
  from m mem t have 4:
    "getitem2_of (snd (get_tooth_dist_matrix sample_fs cpu (PyStr ''False''))) 2 3 = Inr 34"
    by (simp add: getitem2_of_def del: One_nat_def)
  from m' mem t have 5:
    "getitem2_of (snd (get_tooth_dist_matrix sample_fs cpu (PyBool False))) 2 3 = Inr 1"
    by (simp add: getitem2_of_def del: One_nat_def)
  from miss e have 6: "get_tooth_dist_matrix empty_fs cpu (PyStr ''False'')
       = ([Load wasserstein_matrix_npy], Inl (FileNotFoundError wasserstein_matrix_npy))"
    and 7: "get_tooth_dist_matrix empty_fs cpu (PyBool False)
       = ([Load wasserstein_matrix_equal_npy],
          Inl (FileNotFoundError wasserstein_matrix_equal_npy))"
    by blast+
  from 1 2 3 4 5 6 7 show ?thesis by blast
qed

section \<open>The cross-entropy paths\<close>

lemma hd_take1: "xs \<noteq> [] \<Longrightarrow> take (Suc 0) xs = [hd xs]"
  by (cases xs) simp_all

lemma squeeze_channel:
  assumes "2 \<le> length (shape t)" and "shape t ! 1 = 1"
  shows "squeeze t 1 = Inr (t\<lparr>shape := hd (shape t) # drop 2 (shape t)\<rparr>)"
proof -
  from assms(1) have "shape t \<noteq> []" by auto
  then have "take 1 (shape t) = [hd (shape t)]" by (simp add: hd_take1)
  with assms show ?thesis by (simp add: squeeze_def numeral_2_eq_2)
qed

lemma argmax_channel:
  assumes "2 \<le> length (shape t)" and "shape t ! 1 \<noteq> 0"
  shows "\<exists>a. argmax t 1 = Inr a \<and> shape a = hd (shape t) # drop 2 (shape t)
              \<and> dtype a = torch_int64"
proof -
  from assms(1) have "shape t \<noteq> []" by auto
  then have "take 1 (shape t) = [hd (shape t)]" by (simp add: hd_take1)
  with assms show ?thesis by (simp add: argmax_def Let_def numeral_2_eq_2)
qed

lemma convert_int64_small: "convert torch_int64 2 = 2"
  by (simp add: trunc_def swrap_def)

lemma sample_squeezed:
  "long (sample_labels\<lparr>shape := hd (shape sample_labels) # drop 2 (shape sample_labels)\<rparr>)
   = \<lparr>shape = [2, 4, 4, 4], dtype = torch_int64, device = cpu, elems = replicate 128 2\<rparr>"
  by (simp add: sample_labels_def long_def to_dtype_def convert_int64_small del: convert.simps)

lemma small_argmax:
  "argmax small_target 1
   = Inr \<lparr>shape = [1, 2], dtype = torch_int64, device = cpu, elems = [1, 0]\<rparr>"
  by (simp add: argmax_def small_target_def upt_rec)

lemma small_cast:
  "to_dtype small_int_target (dtype small_input) = small_target"
  by (simp add: to_dtype_def small_int_target_def small_target_def small_input_def)

text \<open>
  C2. The cross-entropy path of \<open>DiceCELoss\<close> reconciles the target by the first rule
  that applies, for an input and a target of rank 2 at least. (1) The target has one
  channel and the input another number of channels: the channel dimension is squeezed and
  the target cast to 64-bit integers. (2) Else, on the older version of the library: the
  target is replaced by its arg-max over the channel dimension, of the shape without the
  channel dimension and of 64-bit integers. (3) Else, the target not being of a floating
  type: it is cast to the element type of the input. The result is the second argument of
  the one call of the cross-entropy computation. For an input of shape (2,3,4,4,4) and a
  target of shape (2,1,4,4,4), the cross-entropy computation receives a target of shape
  (2,4,4,4) of 64-bit integers.
\<close>

theorem DiceCELoss_ce_rules:
  assumes "2 \<le> length (shape input)" and "2 \<le> length (shape target)"
  shows
    "(shape target ! 1 \<noteq> shape input ! 1 \<and> shape target ! 1 = 1 \<longrightarrow>
        DiceCELoss_ce self input target =
          (cross_entropy self input
             (long (target\<lparr>shape := hd (shape target) # drop 2 (shape target)\<rparr>)),
           [Call_cross_entropy input
             (long (target\<lparr>shape := hd (shape target) # drop 2 (shape target)\<rparr>))])
        \<and> dtype (long (target\<lparr>shape := hd (shape target) # drop 2 (shape target)\<rparr>))
            = torch_int64)
     \<and> (\<not> (shape target ! 1 \<noteq> shape input ! 1 \<and> shape target ! 1 = 1)
          \<and> old_pt_ver self \<longrightarrow>
        DiceCELoss_ce self input target =
          (case argmax target 1 of
             Inl e \<Rightarrow> (Inl e, [])
           | Inr a \<Rightarrow> (cross_entropy self input a, [Call_cross_entropy input a]))
        \<and> (shape target ! 1 \<noteq> 0 \<longrightarrow>
             (\<exists>a. argmax target 1 = Inr a
                  \<and> shape a = hd (shape target) # drop 2 (shape target)
                  \<and> dtype a = torch_int64)))
     \<and> (\<not> (shape target ! 1 \<noteq> shape input ! 1 \<and> shape target ! 1 = 1)
          \<and> \<not> old_pt_ver self \<and> \<not> is_floating_point target \<longrightarrow>
        DiceCELoss_ce self input target =
          (cross_entropy self input (to_dtype target (dtype input)),
           [Call_cross_entropy input (to_dtype target (dtype input))])
        \<and> dtype (to_dtype target (dtype input)) = dtype input
        \<and> shape (to_dtype target (dtype input)) = shape target)
     \<and> (shape input = [2, 3, 4, 4, 4] \<and> shape target = [2, 1, 4, 4, 4] \<longrightarrow>
        (\<exists>t. DiceCELoss_ce self input target =
                (cross_entropy self input t, [Call_cross_entropy input t])
             \<and> shape t = [2, 4, 4, 4] \<and> dtype t = torch_int64))"
proof (intro conjI impI)
  assume r1: "shape target ! 1 \<noteq> shape input ! 1 \<and> shape target ! 1 = 1"
  then have sq: "squeeze target 1
                 = Inr (target\<lparr>shape := hd (shape target) # drop 2 (shape target)\<rparr>)"
    using squeeze_channel [OF assms(2)] by simp
  show "DiceCELoss_ce self input target =
          (cross_entropy self input
             (long (target\<lparr>shape := hd (shape target) # drop 2 (shape target)\<rparr>)),
           [Call_cross_entropy input
             (long (target\<lparr>shape := hd (shape target) # drop 2 (shape target)\<rparr>))])"
    using assms r1 by (simp add: DiceCELoss_ce_def sq del: One_nat_def)
  show "dtype (long (target\<lparr>shape := hd (shape target) # drop 2 (shape target)\<rparr>))
            = torch_int64"
    by (simp add: long_def to_dtype_def)
next
  assume r2: "\<not> (shape target ! 1 \<noteq> shape input ! 1 \<and> shape target ! 1 = 1) \<and> old_pt_ver self"
  show "DiceCELoss_ce self input target =
          (case argmax target 1 of
             Inl e \<Rightarrow> (Inl e, [])
           | Inr a \<Rightarrow> (cross_entropy self input a, [Call_cross_entropy input a]))"
    using assms r2 by (auto simp: DiceCELoss_ce_def split: sum.splits)
  assume "shape target ! 1 \<noteq> 0"
  then show "\<exists>a. argmax target 1 = Inr a
                  \<and> shape a = hd (shape target) # drop 2 (shape target)
                  \<and> dtype a = torch_int64"
    using argmax_channel [OF assms(2)] by simp
next
  assume r3: "\<not> (shape target ! 1 \<noteq> shape input ! 1 \<and> shape target ! 1 = 1)
          \<and> \<not> old_pt_ver self \<and> \<not> is_floating_point target"
  show "DiceCELoss_ce self input target =
          (cross_entropy self input (to_dtype target (dtype input)),
           [Call_cross_entropy input (to_dtype target (dtype input))])"
    using assms r3 by (auto simp: DiceCELoss_ce_def)
  show "dtype (to_dtype target (dtype input)) = dtype input"
    "shape (to_dtype target (dtype input)) = shape target"
    by (simp_all add: to_dtype_def)
next
  assume ex: "shape input = [2, 3, 4, 4, 4] \<and> shape target = [2, 1, 4, 4, 4]"
  let ?t = "long (target\<lparr>shape := hd (shape target) # drop 2 (shape target)\<rparr>)"
  have sq: "squeeze target 1
                 = Inr (target\<lparr>shape := hd (shape target) # drop 2 (shape target)\<rparr>)"
    using squeeze_channel [OF assms(2)] ex by simp
  have "DiceCELoss_ce self input target =
          (cross_entropy self input ?t, [Call_cross_entropy input ?t])"
    using ex by (simp add: DiceCELoss_ce_def sq del: One_nat_def)
  moreover have "shape ?t = [2, 4, 4, 4]" "dtype ?t = torch_int64"
    using ex by (simp_all add: long_def to_dtype_def)
  ultimately show "\<exists>t. DiceCELoss_ce self input target =
                (cross_entropy self input t, [Call_cross_entropy input t])
             \<and> shape t = [2, 4, 4, 4] \<and> dtype t = torch_int64"
    by blast
qed

theorem DiceCELoss_ce_rules_witness:
  "DiceCELoss_ce old_DiceCELoss sample_input sample_labels =
     (Inr sample_ce_loss,
      [Call_cross_entropy sample_input
         \<lparr>shape = [2, 4, 4, 4], dtype = torch_int64, device = cpu, elems = replicate 128 2\<rparr>])
   \<and> DiceCELoss_ce old_DiceCELoss small_input small_int_target =
     (Inr sample_ce_loss,
      [Call_cross_entropy small_input
         \<lparr>shape = [1, 2], dtype = torch_int64, device = cpu, elems = [1, 0]\<rparr>])
   \<and> DiceCELoss_ce sample_DiceCELoss small_input small_int_target =
     (Inr sample_ce_loss, [Call_cross_entropy small_input small_target])"
proof -
  have a: "2 \<le> length (shape sample_input)" "2 \<le> length (shape sample_labels)"
    "shape sample_labels ! 1 \<noteq> shape sample_input ! 1 \<and> shape sample_labels ! 1 = 1"
    by (simp_all add: sample_input_def sample_labels_def)
  have b: "2 \<le> length (shape small_input)" "2 \<le> length (shape small_int_target)"
    "\<not> (shape small_int_target ! 1 \<noteq> shape small_input ! 1 \<and> shape small_int_target ! 1 = 1)"
    "\<not> is_floating_point small_int_target"
    by (simp_all add: small_input_def small_int_target_def small_target_def
          is_floating_point_def)
  have c: "old_pt_ver old_DiceCELoss" "\<not> old_pt_ver sample_DiceCELoss"
    "cross_entropy old_DiceCELoss = sample_ce_fn" "cross_entropy sample_DiceCELoss = sample_ce_fn"
    by (simp_all add: old_DiceCELoss_def sample_DiceCELoss_def)
  have d: "argmax small_int_target 1
           = Inr \<lparr>shape = [1, 2], dtype = torch_int64, device = cpu, elems = [1, 0]\<rparr>"
    by (simp add: argmax_def small_int_target_def small_target_def upt_rec)
  from DiceCELoss_ce_rules [OF a(1) a(2), of old_DiceCELoss] a(3)
  have "DiceCELoss_ce old_DiceCELoss sample_input sample_labels =
     (Inr sample_ce_loss,
      [Call_cross_entropy sample_input
         \<lparr>shape = [2, 4, 4, 4], dtype = torch_int64, device = cpu, elems = replicate 128 2\<rparr>])"
    by (simp add: sample_squeezed c sample_ce_fn_def del: One_nat_def)
  moreover from DiceCELoss_ce_rules [OF b(1) b(2), of old_DiceCELoss] b(3) c(1)
  have "DiceCELoss_ce old_DiceCELoss small_input small_int_target =
     (Inr sample_ce_loss,
      [Call_cross_entropy small_input
         \<lparr>shape = [1, 2], dtype = torch_int64, device = cpu, elems = [1, 0]\<rparr>])"
    by (simp add: d c sample_ce_fn_def del: One_nat_def)
  moreover from DiceCELoss_ce_rules [OF b(1) b(2), of sample_DiceCELoss] b(3) b(4) c(2)
  have "DiceCELoss_ce sample_DiceCELoss small_input small_int_target =
     (Inr sample_ce_loss, [Call_cross_entropy small_input small_target])"
    by (simp add: small_cast c sample_ce_fn_def del: One_nat_def)
  ultimately show ?thesis by simp
qed

text \<open>
  C6. The cross-entropy path of \<open>GWDLCELoss\<close>, for a prediction and a target of rank 2
  at least: the target has one channel and the prediction another number of channels, then
  the channel dimension is squeezed and the target cast to 64-bit integers; otherwise, the
  target not being of a floating type, it is cast to the element type of the prediction.
  The result is the second argument of the one call of the cross-entropy computation. The
  Generalized Wasserstein Dice computation is called, after the cross-entropy path has
  returned, with the prediction and the target as \<open>forward\<close> received them.
\<close>

theorem GWDLCELoss_ce_rules:
  assumes "2 \<le> length (shape input)" and "2 \<le> length (shape target)"
  shows
    "(shape target ! 1 \<noteq> shape input ! 1 \<and> shape target ! 1 = 1 \<longrightarrow>
        GWDLCELoss_ce self input target =
          (cross_entropy self input
             (long (target\<lparr>shape := hd (shape target) # drop 2 (shape target)\<rparr>)),
           [Call_cross_entropy input
             (long (target\<lparr>shape := hd (shape target) # drop 2 (shape target)\<rparr>))])
        \<and> dtype (long (target\<lparr>shape := hd (shape target) # drop 2 (shape target)\<rparr>))
            = torch_int64)
     \<and> (\<not> (shape target ! 1 \<noteq> shape input ! 1 \<and> shape target ! 1 = 1)
          \<and> \<not> is_floating_point target \<longrightarrow>
        GWDLCELoss_ce self input target =
          (cross_entropy self input (to_dtype target (dtype input)),
           [Call_cross_entropy input (to_dtype target (dtype input))])
        \<and> dtype (to_dtype target (dtype input)) = dtype input
        \<and> shape (to_dtype target (dtype input)) = shape target)
     \<and> GWDLCELoss_gwdl self input target =
          (generalized_dice self input target, [Call_generalized_dice input target])
     \<and> (\<forall>ce_loss. fst (GWDLCELoss_ce self input target) = Inr ce_loss \<longrightarrow>
          snd (GWDLCELoss_forward self input target)
            = snd (GWDLCELoss_ce self input target) @ [Call_generalized_dice input target])
     \<and> (\<forall>c. Call_generalized_dice input c \<in> set (snd (GWDLCELoss_forward self input target))
              \<longrightarrow> c = target)"
proof (intro conjI impI allI)
  assume r1: "shape target ! 1 \<noteq> shape input ! 1 \<and> shape target ! 1 = 1"
  then have sq: "squeeze target 1
                 = Inr (target\<lparr>shape := hd (shape target) # drop 2 (shape target)\<rparr>)"
    using squeeze_channel [OF assms(2)] by simp
  show "GWDLCELoss_ce self input target =
          (cross_entropy self input
             (long (target\<lparr>shape := hd (shape target) # drop 2 (shape target)\<rparr>)),
           [Call_cross_entropy input
             (long (target\<lparr>shape := hd (shape target) # drop 2 (shape target)\<rparr>))])"
    using assms r1 by (simp add: GWDLCELoss_ce_def sq del: One_nat_def)
  show "dtype (long (target\<lparr>shape := hd (shape target) # drop 2 (shape target)\<rparr>))
            = torch_int64"
    by (simp add: long_def to_dtype_def)
next
  assume r3: "\<not> (shape target ! 1 \<noteq> shape input ! 1 \<and> shape target ! 1 = 1)
          \<and> \<not> is_floating_point target"
  show "GWDLCELoss_ce self input target =
          (cross_entropy self input (to_dtype target (dtype input)),
           [Call_cross_entropy input (to_dtype target (dtype input))])"
    using assms r3 by (auto simp: GWDLCELoss_ce_def)
  show "dtype (to_dtype target (dtype input)) = dtype input"
    "shape (to_dtype target (dtype input)) = shape target"
    by (simp_all add: to_dtype_def)
next
  show "GWDLCELoss_gwdl self input target =
          (generalized_dice self input target, [Call_generalized_dice input target])"
    by (simp add: GWDLCELoss_gwdl_def)
next
  fix ce_loss assume "fst (GWDLCELoss_ce self input target) = Inr ce_loss"
  then show "snd (GWDLCELoss_forward self input target)
            = snd (GWDLCELoss_ce self input target) @ [Call_generalized_dice input target]"
    by (cases "GWDLCELoss_ce self input target")
       (auto simp: GWDLCELoss_forward_def GWDLCELoss_gwdl_def split: sum.splits)
next
  fix c assume "Call_generalized_dice input c \<in> set (snd (GWDLCELoss_forward self input target))"
  then show "c = target"
    by (auto simp: GWDLCELoss_forward_def GWDLCELoss_gwdl_def GWDLCELoss_ce_def Let_def
             split: sum.splits if_splits prod.splits)
qed

theorem GWDLCELoss_ce_rules_witness:
  "GWDLCELoss_forward sample_GWDLCELoss sample_input sample_labels =
     (Inr (sample_dice_loss, sample_ce_loss),
      [Call_cross_entropy sample_input
         \<lparr>shape = [2, 4, 4, 4], dtype = torch_int64, device = cpu, elems = replicate 128 2\<rparr>,
       Call_generalized_dice sample_input sample_labels])
   \<and> GWDLCELoss_ce sample_GWDLCELoss small_input small_int_target =
     (Inr sample_ce_loss, [Call_cross_entropy small_input small_target])"
proof -
  have a: "2 \<le> length (shape sample_input)" "2 \<le> length (shape sample_labels)"
    "shape sample_labels ! 1 \<noteq> shape sample_input ! 1 \<and> shape sample_labels ! 1 = 1"
    by (simp_all add: sample_input_def sample_labels_def)
  have b: "2 \<le> length (shape small_input)" "2 \<le> length (shape small_int_target)"
    "\<not> (shape small_int_target ! 1 \<noteq> shape small_input ! 1 \<and> shape small_int_target ! 1 = 1)"
    "\<not> is_floating_point small_int_target"
    by (simp_all add: small_input_def small_int_target_def small_target_def
          is_floating_point_def)
  have c: "cross_entropy sample_GWDLCELoss = sample_ce_fn"
    "generalized_dice sample_GWDLCELoss = sample_dice_fn"
    by (simp_all add: sample_GWDLCELoss_def)
  from GWDLCELoss_ce_rules [OF a(1) a(2), of sample_GWDLCELoss] a(3)
  have ce: "GWDLCELoss_ce sample_GWDLCELoss sample_input sample_labels =
     (Inr sample_ce_loss,
      [Call_cross_entropy sample_input
         \<lparr>shape = [2, 4, 4, 4], dtype = torch_int64, device = cpu, elems = replicate 128 2\<rparr>])"
    by (simp add: sample_squeezed c sample_ce_fn_def del: One_nat_def)
  from GWDLCELoss_ce_rules [OF a(1) a(2), of sample_GWDLCELoss] ce
  have tr: "snd (GWDLCELoss_forward sample_GWDLCELoss sample_input sample_labels) =
      [Call_cross_entropy sample_input
         \<lparr>shape = [2, 4, 4, 4], dtype = torch_int64, device = cpu, elems = replicate 128 2\<rparr>,
       Call_generalized_dice sample_input sample_labels]"
    by simp
  have res: "fst (GWDLCELoss_forward sample_GWDLCELoss sample_input sample_labels)
             = Inr (sample_dice_loss, sample_ce_loss)"
    by (simp add: GWDLCELoss_forward_def ce GWDLCELoss_gwdl_def c sample_dice_fn_def)
  from GWDLCELoss_ce_rules [OF b(1) b(2), of sample_GWDLCELoss] b(3) b(4)
  have "GWDLCELoss_ce sample_GWDLCELoss small_input small_int_target =
     (Inr sample_ce_loss, [Call_cross_entropy small_input small_target])"
    by (simp add: small_cast c sample_ce_fn_def del: One_nat_def)
  with tr res show ?thesis by (simp add: prod_eq_iff)
qed

text \<open>
  C7, as the code has it. A target of a floating type with as many channels as the input
  goes to the cross-entropy computation as it is in \<open>GWDLCELoss.ce\<close>, and in
  \<open>DiceCELoss.ce\<close> when the library is not the older version. On the older version
  \<open>DiceCELoss.ce\<close> hands over the arg-max of the target over the channel dimension.
\<close>

theorem ce_conforming_target_unchanged:
  assumes "2 \<le> length (shape input)" and "2 \<le> length (shape target)"
    and "shape target ! 1 = shape input ! 1" and "is_floating_point target"
  shows
    "GWDLCELoss_ce gself input target =
       (cross_entropy gself input target, [Call_cross_entropy input target])
     \<and> (\<not> old_pt_ver dself \<longrightarrow>
          DiceCELoss_ce dself input target =
            (cross_entropy dself input target, [Call_cross_entropy input target]))
     \<and> (old_pt_ver dself \<longrightarrow>
          DiceCELoss_ce dself input target =
            (case argmax target 1 of
               Inl e \<Rightarrow> (Inl e, [])
             | Inr a \<Rightarrow> (cross_entropy dself input a, [Call_cross_entropy input a])))"
  using assms
  by (auto simp: GWDLCELoss_ce_def DiceCELoss_ce_def split: sum.splits)

theorem ce_conforming_target_unchanged_witness:
  "GWDLCELoss_ce sample_GWDLCELoss small_input small_target =
     (Inr sample_ce_loss, [Call_cross_entropy small_input small_target])
   \<and> DiceCELoss_ce sample_DiceCELoss small_input small_target =
     (Inr sample_ce_loss, [Call_cross_entropy small_input small_target])
   \<and> DiceCELoss_ce old_DiceCELoss small_input small_target =
     (Inr sample_ce_loss,
      [Call_cross_entropy small_input
         \<lparr>shape = [1, 2], dtype = torch_int64, device = cpu, elems = [1, 0]\<rparr>])"
proof -
  have h: "2 \<le> length (shape small_input)" "2 \<le> length (shape small_target)"
    "shape small_target ! 1 = shape small_input ! 1" "is_floating_point small_target"
    by (simp_all add: small_input_def small_target_def is_floating_point_def)
  have c: "old_pt_ver old_DiceCELoss" "\<not> old_pt_ver sample_DiceCELoss"
    "cross_entropy old_DiceCELoss = sample_ce_fn" "cross_entropy sample_DiceCELoss = sample_ce_fn"
    "cross_entropy sample_GWDLCELoss = sample_ce_fn"
    by (simp_all add: old_DiceCELoss_def sample_DiceCELoss_def sample_GWDLCELoss_def)
  from ce_conforming_target_unchanged [OF h, of sample_GWDLCELoss sample_DiceCELoss] c(2)
  have 1: "GWDLCELoss_ce sample_GWDLCELoss small_input small_target =
     (Inr sample_ce_loss, [Call_cross_entropy small_input small_target])"
    and 2: "DiceCELoss_ce sample_DiceCELoss small_input small_target =
     (Inr sample_ce_loss, [Call_cross_entropy small_input small_target])"
    by (simp_all add: c sample_ce_fn_def)
  from ce_conforming_target_unchanged [OF h, of sample_GWDLCELoss old_DiceCELoss] c(1)
  have 3: "DiceCELoss_ce old_DiceCELoss small_input small_target =
     (Inr sample_ce_loss,
      [Call_cross_entropy small_input
         \<lparr>shape = [1, 2], dtype = torch_int64, device = cpu, elems = [1, 0]\<rparr>])"
    by (simp add: c small_argmax sample_ce_fn_def del: One_nat_def)
  from 1 2 3 show ?thesis by simp
qed

text \<open>
  On the older version of the library a floating target with the channels of the input
  is not handed over as it is: the cross-entropy computation receives its arg-max.
\<close>

theorem old_version_argmax_counterexample:
  "2 \<le> length (shape small_input) \<and> 2 \<le> length (shape small_target)
   \<and> shape small_target ! 1 = shape small_input ! 1
   \<and> is_floating_point small_target
   \<and> snd (DiceCELoss_ce old_DiceCELoss small_input small_target)
       = [Call_cross_entropy small_input
            \<lparr>shape = [1, 2], dtype = torch_int64, device = cpu, elems = [1, 0]\<rparr>]
   \<and> snd (DiceCELoss_ce old_DiceCELoss small_input small_target)
       \<noteq> [Call_cross_entropy small_input small_target]"
proof -
  have h: "2 \<le> length (shape small_input)" "2 \<le> length (shape small_target)"
    "shape small_target ! 1 = shape small_input ! 1" "is_floating_point small_target"
    by (simp_all add: small_input_def small_target_def is_floating_point_def)
  have o: "old_pt_ver old_DiceCELoss" by (simp add: old_DiceCELoss_def)
  have ce: "DiceCELoss_ce old_DiceCELoss small_input small_target =
     (cross_entropy old_DiceCELoss small_input
         \<lparr>shape = [1, 2], dtype = torch_int64, device = cpu, elems = [1, 0]\<rparr>,
      [Call_cross_entropy small_input
         \<lparr>shape = [1, 2], dtype = torch_int64, device = cpu, elems = [1, 0]\<rparr>])"
    using h o by (simp add: DiceCELoss_ce_def small_argmax del: One_nat_def)
  have ne: "\<lparr>shape = [1, 2], dtype = torch_int64, device = cpu, elems = [1, 0]\<rparr> \<noteq> small_target"
    by (simp add: small_target_def)
  from h ce ne show ?thesis by simp
qed

section \<open>The forward passes\<close>

text \<open>
  C3. When input and target have different ranks, \<open>DiceCELoss.forward\<close> raises a
  \<open>ValueError\<close> whose message holds the shapes of both, and neither the Dice nor the
  cross-entropy computation has been called.
\<close>

theorem DiceCELoss_forward_rank_mismatch:
  assumes "length (shape input) \<noteq> length (shape target)"
  shows "DiceCELoss_forward self input target =
           (Inl (ValueError
                   (''the number of dimensions for input and target should be the same, ''
                    @ ''got shape '' @ str_Size (shape input) @ '' and ''
                    @ str_Size (shape target) @ ''.'')), [])
         \<and> snd (DiceCELoss_forward self input target) = []"
  using assms by (simp add: DiceCELoss_forward_def)

lemma str_Size_sample:
  "str_Size [2, 3, 4, 4, 4] = ''torch.Size([2, 3, 4, 4, 4])''"
  "str_Size [2, 4, 4, 4] = ''torch.Size([2, 4, 4, 4])''"
  by (simp_all add: str_Size_def)

theorem DiceCELoss_forward_rank_mismatch_witness:
  "DiceCELoss_forward sample_DiceCELoss sample_input (sample_labels\<lparr>shape := [2, 4, 4, 4]\<rparr>) =
     (Inl (ValueError
        (''the number of dimensions for input and target should be the same, ''
         @ ''got shape torch.Size([2, 3, 4, 4, 4]) and torch.Size([2, 4, 4, 4]).'')), [])"
proof -
  have h: "length (shape sample_input) \<noteq> length (shape (sample_labels\<lparr>shape := [2, 4, 4, 4]\<rparr>))"
    by (simp add: sample_input_def)
  have sh: "shape sample_input = [2, 3, 4, 4, 4]" by (simp add: sample_input_def)
  from DiceCELoss_forward_rank_mismatch [OF h, of sample_DiceCELoss]
  show ?thesis by (simp add: sh str_Size_sample del: str_nat.simps)
qed

lemma ce_result_GWDL:
  "fst (GWDLCELoss_ce self input target) = Inr c \<Longrightarrow> \<exists>t. cross_entropy self input t = Inr c"
  by (auto simp: GWDLCELoss_ce_def Let_def split: if_splits sum.splits)

lemma ce_result_Dice:
  "fst (DiceCELoss_ce self input target) = Inr c \<Longrightarrow> \<exists>t. cross_entropy self input t = Inr c"
  by (auto simp: DiceCELoss_ce_def Let_def split: if_splits sum.splits)

lemma GWDLCELoss_ce_lambda:
  "GWDLCELoss_ce (self\<lparr>lambda_dice := a, lambda_ce := b\<rparr>) input target
   = GWDLCELoss_ce self input target"
  by (simp add: GWDLCELoss_ce_def Let_def split: sum.splits)

lemma DiceCELoss_ce_lambda:
  "DiceCELoss_ce (self\<lparr>lambda_dice := a, lambda_ce := b\<rparr>) input target
   = DiceCELoss_ce self input target"
  by (simp add: DiceCELoss_ce_def Let_def split: sum.splits)

text \<open>
  C9. Both \<open>forward\<close> functions return the pair of the losses that the two computations
  returned, the Dice (or Generalized Wasserstein Dice) loss first and the cross-entropy
  loss second. The weights \<open>lambda_dice\<close> and \<open>lambda_ce\<close> of the object have no
  part in it: with other weights the result and the calls are the same.
\<close>

theorem forward_returns_components:
  "GWDLCELoss_forward (gself\<lparr>lambda_dice := a, lambda_ce := b\<rparr>) y_pred y_true
     = GWDLCELoss_forward gself y_pred y_true
   \<and> DiceCELoss_forward (dself\<lparr>lambda_dice := a, lambda_ce := b\<rparr>) input target
     = DiceCELoss_forward dself input target
   \<and> (\<forall>r. fst (GWDLCELoss_forward gself y_pred y_true) = Inr r \<longrightarrow>
         generalized_dice gself y_pred y_true = Inr (fst r)
         \<and> fst (GWDLCELoss_ce gself y_pred y_true) = Inr (snd r)
         \<and> (\<exists>t. cross_entropy gself y_pred t = Inr (snd r)))
   \<and> (\<forall>r. fst (DiceCELoss_forward dself input target) = Inr r \<longrightarrow>
         dice dself input target = Inr (fst r)
         \<and> fst (DiceCELoss_ce dself input target) = Inr (snd r)
         \<and> (\<exists>t. cross_entropy dself input t = Inr (snd r)))
   \<and> (generalized_dice gself y_pred y_true = Inr gwdl_loss
        \<and> fst (GWDLCELoss_ce gself y_pred y_true) = Inr ce_loss \<longrightarrow>
        fst (GWDLCELoss_forward gself y_pred y_true) = Inr (gwdl_loss, ce_loss))
   \<and> (length (shape input) = length (shape target)
        \<and> dice dself input target = Inr dice_loss
        \<and> fst (DiceCELoss_ce dself input target) = Inr ce_loss' \<longrightarrow>
        fst (DiceCELoss_forward dself input target) = Inr (dice_loss, ce_loss'))"
proof (intro conjI allI impI)
  show "GWDLCELoss_forward (gself\<lparr>lambda_dice := a, lambda_ce := b\<rparr>) y_pred y_true
     = GWDLCELoss_forward gself y_pred y_true"
    by (simp add: GWDLCELoss_forward_def GWDLCELoss_ce_lambda GWDLCELoss_gwdl_def
          split: prod.splits sum.splits)
  show "DiceCELoss_forward (dself\<lparr>lambda_dice := a, lambda_ce := b\<rparr>) input target
     = DiceCELoss_forward dself input target"
    by (simp add: DiceCELoss_forward_def DiceCELoss_ce_lambda split: prod.splits sum.splits)
next
  fix r assume r: "fst (GWDLCELoss_forward gself y_pred y_true) = Inr r"
  then show g: "generalized_dice gself y_pred y_true = Inr (fst r)"
    and c: "fst (GWDLCELoss_ce gself y_pred y_true) = Inr (snd r)"
    by (cases "GWDLCELoss_ce gself y_pred y_true";
        auto simp: GWDLCELoss_forward_def GWDLCELoss_gwdl_def split: sum.splits)+
  from ce_result_GWDL [OF c] show "\<exists>t. cross_entropy gself y_pred t = Inr (snd r)" .
next
  fix r assume r: "fst (DiceCELoss_forward dself input target) = Inr r"
  then show d: "dice dself input target = Inr (fst r)"
    and c: "fst (DiceCELoss_ce dself input target) = Inr (snd r)"
    by (cases "DiceCELoss_ce dself input target";
        auto simp: DiceCELoss_forward_def split: sum.splits if_splits)+
  from ce_result_Dice [OF c] show "\<exists>t. cross_entropy dself input t = Inr (snd r)" .
next
  assume "generalized_dice gself y_pred y_true = Inr gwdl_loss
        \<and> fst (GWDLCELoss_ce gself y_pred y_true) = Inr ce_loss"
  then show "fst (GWDLCELoss_forward gself y_pred y_true) = Inr (gwdl_loss, ce_loss)"
    by (cases "GWDLCELoss_ce gself y_pred y_true")
       (auto simp: GWDLCELoss_forward_def GWDLCELoss_gwdl_def)
next
  assume "length (shape input) = length (shape target)
        \<and> dice dself input target = Inr dice_loss
        \<and> fst (DiceCELoss_ce dself input target) = Inr ce_loss'"
  then show "fst (DiceCELoss_forward dself input target) = Inr (dice_loss, ce_loss')"
    by (cases "DiceCELoss_ce dself input target")
       (auto simp: DiceCELoss_forward_def)
qed

theorem forward_returns_components_witness:
  "fst (GWDLCELoss_forward sample_GWDLCELoss small_input small_target)
     = Inr (sample_dice_loss, sample_ce_loss)
   \<and> fst (DiceCELoss_forward sample_DiceCELoss small_input small_target)
     = Inr (sample_dice_loss, sample_ce_loss)
   \<and> lambda_dice sample_DiceCELoss = 2 \<and> lambda_ce sample_DiceCELoss = 3
   \<and> lambda_dice sample_GWDLCELoss = 2 \<and> lambda_ce sample_GWDLCELoss = 3
   \<and> DiceCELoss_forward (sample_DiceCELoss\<lparr>lambda_dice := 0, lambda_ce := 0\<rparr>)
        small_input small_target
      = DiceCELoss_forward sample_DiceCELoss small_input small_target"
proof -
  have g: "generalized_dice sample_GWDLCELoss small_input small_target = Inr sample_dice_loss
        \<and> fst (GWDLCELoss_ce sample_GWDLCELoss small_input small_target) = Inr sample_ce_loss"
    by (simp add: sample_GWDLCELoss_def sample_dice_fn_def sample_ce_fn_def GWDLCELoss_ce_def
          small_input_def small_target_def is_floating_point_def)
  have d: "length (shape small_input) = length (shape small_target)
        \<and> dice sample_DiceCELoss small_input small_target = Inr sample_dice_loss
        \<and> fst (DiceCELoss_ce sample_DiceCELoss small_input small_target) = Inr sample_ce_loss"
    by (simp add: sample_DiceCELoss_def sample_dice_fn_def sample_ce_fn_def DiceCELoss_ce_def
          small_input_def small_target_def is_floating_point_def)
  note inst = forward_returns_components
         [where gself = sample_GWDLCELoss and y_pred = small_input and y_true = small_target
            and dself = sample_DiceCELoss and input = small_input and target = small_target
            and gwdl_loss = sample_dice_loss and ce_loss = sample_ce_loss
            and dice_loss = sample_dice_loss and ce_loss' = sample_ce_loss
            and a = 0 and b = 0]
  from inst g have 1: "fst (GWDLCELoss_forward sample_GWDLCELoss small_input small_target)
     = Inr (sample_dice_loss, sample_ce_loss)"
    by blast
  from inst d have 2: "fst (DiceCELoss_forward sample_DiceCELoss small_input small_target)
     = Inr (sample_dice_loss, sample_ce_loss)"
    by blast
  from inst have 3: "DiceCELoss_forward (sample_DiceCELoss\<lparr>lambda_dice := 0, lambda_ce := 0\<rparr>)
        small_input small_target
      = DiceCELoss_forward sample_DiceCELoss small_input small_target"
    by blast
  have 4: "lambda_dice sample_DiceCELoss = 2 \<and> lambda_ce sample_DiceCELoss = 3
   \<and> lambda_dice sample_GWDLCELoss = 2 \<and> lambda_ce sample_GWDLCELoss = 3"
    by (simp add: sample_DiceCELoss_def sample_GWDLCELoss_def)
  from 1 2 3 4 show ?thesis by blast
qed

section \<open>Construction of DiceCELoss\<close>

text \<open>
  C5. The construction of \<open>DiceCELoss\<close> fails when \<open>lambda_dice\<close> or \<open>lambda_ce\<close>
  is negative: with a \<open>ValueError\<close> that names the weight, once the reduction has been
  looked up and the two loss objects have been built. It succeeds with both weights 0
  (and with any weights that are not negative). It fails with the error of the lookup
  when the reduction is neither \<open>mean\<close> nor \<open>sum\<close>.
\<close>

theorem DiceCELoss_init_validation:
  "(lambda_dice' < 0 \<or> lambda_ce' < 0 \<longrightarrow>
      isl (DiceCELoss_init lib kwargs ce_weight lambda_dice' lambda_ce'))
   \<and> (look_up_option (reduction kwargs) = Inr opt
        \<and> DiceLoss lib (kwargs\<lparr>reduction := DiceCEReduction_value opt\<rparr>) = Inr dice'
        \<and> CrossEntropyLoss lib ce_weight (DiceCEReduction_value opt) = Inr cross_entropy' \<longrightarrow>
      (lambda_dice' < 0 \<longrightarrow>
         DiceCELoss_init lib kwargs ce_weight lambda_dice' lambda_ce'
           = Inl (ValueError ''lambda_dice should be no less than 0.0.''))
      \<and> (0 \<le> lambda_dice' \<and> lambda_ce' < 0 \<longrightarrow>
         DiceCELoss_init lib kwargs ce_weight lambda_dice' lambda_ce'
           = Inl (ValueError ''lambda_ce should be no less than 0.0.''))
      \<and> (0 \<le> lambda_dice' \<and> 0 \<le> lambda_ce' \<longrightarrow>
         DiceCELoss_init lib kwargs ce_weight lambda_dice' lambda_ce'
           = Inr \<lparr>lambda_dice = lambda_dice', lambda_ce = lambda_ce',
                  cross_entropy = cross_entropy', dice = dice',
                  old_pt_ver = (\<not> pytorch_after lib 1 10)\<rparr>)
      \<and> DiceCELoss_init lib kwargs ce_weight 0 0
           = Inr \<lparr>lambda_dice = 0, lambda_ce = 0,
                  cross_entropy = cross_entropy', dice = dice',
                  old_pt_ver = (\<not> pytorch_after lib 1 10)\<rparr>)
   \<and> (reduction kwargs \<noteq> ''mean'' \<and> reduction kwargs \<noteq> ''sum'' \<longrightarrow>
        DiceCELoss_init lib kwargs ce_weight lambda_dice' lambda_ce'
          = Inl (OptionLookupError (reduction kwargs)))
   \<and> (reduction kwargs = ''mean'' \<or> reduction kwargs = ''sum'' \<longrightarrow>
        (\<exists>opt'. look_up_option (reduction kwargs) = Inr opt'
                \<and> DiceCEReduction_value opt' = reduction kwargs))"
proof (intro conjI impI)
  assume "lambda_dice' < 0 \<or> lambda_ce' < 0"
  then show "isl (DiceCELoss_init lib kwargs ce_weight lambda_dice' lambda_ce')"
    by (auto simp: DiceCELoss_init_def split: sum.splits)
next
  assume "reduction kwargs \<noteq> ''mean'' \<and> reduction kwargs \<noteq> ''sum''"
  then show "DiceCELoss_init lib kwargs ce_weight lambda_dice' lambda_ce'
          = Inl (OptionLookupError (reduction kwargs))"
    by (simp add: DiceCELoss_init_def look_up_option_def)
next
  assume "reduction kwargs = ''mean'' \<or> reduction kwargs = ''sum''"
  then show "\<exists>opt'. look_up_option (reduction kwargs) = Inr opt'
                \<and> DiceCEReduction_value opt' = reduction kwargs"
    by (auto simp: look_up_option_def)
qed (simp_all add: DiceCELoss_init_def)

theorem DiceCELoss_init_validation_witness:
  "DiceCELoss_init sample_library DiceLoss_kwargs_default None (- 1 / 10) 1
     = Inl (ValueError ''lambda_dice should be no less than 0.0.'')
   \<and> DiceCELoss_init sample_library DiceLoss_kwargs_default None 1 (- 1 / 10)
     = Inl (ValueError ''lambda_ce should be no less than 0.0.'')
   \<and> DiceCELoss_init sample_library DiceLoss_kwargs_default None 0 0
     = Inr \<lparr>lambda_dice = 0, lambda_ce = 0, cross_entropy = sample_ce_fn,
            dice = sample_dice_fn, old_pt_ver = False\<rparr>
   \<and> DiceCELoss_init sample_library (DiceLoss_kwargs_default\<lparr>reduction := ''none''\<rparr>) None 1 1
     = Inl (OptionLookupError ''none'')"
proof -
  have h: "look_up_option (reduction DiceLoss_kwargs_default) = Inr DiceCEReduction_MEAN
        \<and> DiceLoss sample_library
             (DiceLoss_kwargs_default\<lparr>reduction := DiceCEReduction_value DiceCEReduction_MEAN\<rparr>)
           = Inr sample_dice_fn
        \<and> CrossEntropyLoss sample_library None (DiceCEReduction_value DiceCEReduction_MEAN)
           = Inr sample_ce_fn"
    by (simp add: look_up_option_def DiceLoss_kwargs_default_def sample_library_def)
  have p: "\<not> pytorch_after sample_library 1 10 = False"
    by (simp add: sample_library_def)
  have n: "reduction (DiceLoss_kwargs_default\<lparr>reduction := ''none''\<rparr>) \<noteq> ''mean''
           \<and> reduction (DiceLoss_kwargs_default\<lparr>reduction := ''none''\<rparr>) \<noteq> ''sum''"
    by simp
  from DiceCELoss_init_validation
         [of "- 1 / 10" 1 sample_library DiceLoss_kwargs_default None DiceCEReduction_MEAN
             sample_dice_fn sample_ce_fn] h
  have 1: "DiceCELoss_init sample_library DiceLoss_kwargs_default None (- 1 / 10) 1
     = Inl (ValueError ''lambda_dice should be no less than 0.0.'')"
    and 3: "DiceCELoss_init sample_library DiceLoss_kwargs_default None 0 0
     = Inr \<lparr>lambda_dice = 0, lambda_ce = 0, cross_entropy = sample_ce_fn,
            dice = sample_dice_fn, old_pt_ver = False\<rparr>"
    using p by simp_all
  from DiceCELoss_init_validation
         [of 1 "- 1 / 10" sample_library DiceLoss_kwargs_default None DiceCEReduction_MEAN
             sample_dice_fn sample_ce_fn] h
  have 2: "DiceCELoss_init sample_library DiceLoss_kwargs_default None 1 (- 1 / 10)
     = Inl (ValueError ''lambda_ce should be no less than 0.0.'')"
    by simp
  from DiceCELoss_init_validation
         [of 1 1 sample_library "DiceLoss_kwargs_default\<lparr>reduction := ''none''\<rparr>" None] n
  have 4: "DiceCELoss_init sample_library (DiceLoss_kwargs_default\<lparr>reduction := ''none''\<rparr>) None 1 1
     = Inl (OptionLookupError ''none'')"
    by simp
  from 1 2 3 4 show ?thesis by simp
qed

end
